theory Spec2Isabelle
  imports Complex_Main "HOL-Library.Log_Nat"
begin

section \<open>The rent-versus-own projection engine of \<^verbatim>\<open>src/app.py\<close>\<close>

text \<open>
  The script reads nineteen scalar assumptions from its sidebar, derives the loan and
  the first tax bill, and then runs one loop over the years 1..15 that escalates the
  running costs, grows the renter's portfolio, pays the loan down for twelve months and
  appends the owner's and the renter's net worth to four parallel lists.

  The script computes in Python's binary64 floating-point numbers. The main model
  idealises them as the reals: every \<open>+\<close>, \<open>*\<close>, \<open>/\<close> and \<open>**\<close> is the exact operation, and
  the theorems about formulas, escalation and information flow speak about the
  arithmetic the script denotes. Where rounding decides the outcome, namely whether the
  last payment of the loan lands on zero, the loan side of the script is modelled a
  second time with every operation rounded to binary64.
\<close>

subsection \<open>Inputs\<close>

text \<open>
  One field per sidebar variable, named as in the script and holding the value the
  script computes with (the percentage inputs already divided by 100, lines 16--46).
  \<open>mortgage_term\<close> comes from a select box offering 15 and 30, hence a natural number.
\<close>

record Assumptions =
  purchase_price :: real
  down_payment_percent :: real
  mortgage_rate :: real
  mortgage_term :: nat
  renovation_cost :: real
  reno_recapture :: real
  hoa_monthly :: real
  insurance_rate :: real
  maintenance_rate :: real
  tax_rate :: real
  assessed_value_pct :: real
  homestead_exemption :: real
  tax_cap_rate :: real
  appreciation_rate :: real
  inflation_rate :: real
  rent_appreciation :: real
  cost_of_capital :: real
  monthly_rent :: real
  selling_costs_pct :: real

text \<open>
  The input domain of section 3 of the specification: rates and fractions are not
  negative, the two slider fractions lie in [0,1] (the sliders of lines 17 and 21
  enforce it), the term is 15 or 30 (the select box of line 19), and price, rent, HOA
  and renovation cost are not negative. The homestead exemption is not constrained.
\<close>

definition wellformed :: "Assumptions \<Rightarrow> bool" where
  "wellformed a \<longleftrightarrow>
     0 \<le> purchase_price a \<and>
     0 \<le> down_payment_percent a \<and> down_payment_percent a \<le> 1 \<and>
     0 \<le> mortgage_rate a \<and>
     (mortgage_term a = 15 \<or> mortgage_term a = 30) \<and>
     0 \<le> renovation_cost a \<and>
     0 \<le> reno_recapture a \<and> reno_recapture a \<le> 1 \<and>
     0 \<le> hoa_monthly a \<and>
     0 \<le> insurance_rate a \<and>
     0 \<le> maintenance_rate a \<and>
     0 \<le> tax_rate a \<and>
     0 \<le> assessed_value_pct a \<and>
     0 \<le> tax_cap_rate a \<and>
     0 \<le> appreciation_rate a \<and>
     0 \<le> inflation_rate a \<and>
     0 \<le> rent_appreciation a \<and>
     0 \<le> cost_of_capital a \<and>
     0 \<le> monthly_rent a \<and>
     0 \<le> selling_costs_pct a"

subsection \<open>Initial values (lines 51--64)\<close>

definition down_payment_dollars :: "Assumptions \<Rightarrow> real" where
  "down_payment_dollars a = purchase_price a * down_payment_percent a"

definition loan_amount :: "Assumptions \<Rightarrow> real" where
  "loan_amount a = purchase_price a - down_payment_dollars a"

definition initial_market_value :: "Assumptions \<Rightarrow> real" where
  "initial_market_value a = purchase_price a + (renovation_cost a * reno_recapture a)"

definition initial_cash_invested :: "Assumptions \<Rightarrow> real" where
  "initial_cash_invested a = down_payment_dollars a + renovation_cost a"

definition monthly_rate :: "Assumptions \<Rightarrow> real" where
  "monthly_rate a = mortgage_rate a / 12"

definition n_periods :: "Assumptions \<Rightarrow> nat" where
  "n_periods a = mortgage_term a * 12"

text \<open>
  Modelled from the spec: \<^verbatim>\<open>npf.pmt\<close> is a function of the third-party library
  numpy_financial and is not part of \<^verbatim>\<open>src/\<close>. Section 4.1 of the specification
  describes the payment as the amount for which the present value of \<open>n\<close> payments at
  rate \<open>r\<close> equals the principal, and as \<open>principal / n\<close> when \<open>r = 0\<close>. The definition is
  the library's formula for that amount, \<open>- (fv + pv * (1 + rate) ^ nper) / fact\<close> with
  \<open>fact = nper\<close> when \<open>rate = 0\<close> and \<open>(1 + rate * when) * ((1 + rate) ^ nper - 1) / rate\<close>
  otherwise; line 60 calls it with the defaults \<open>fv = 0\<close> and \<open>when = 0\<close> (payments at
  the end of each period). The result is negative for a positive principal (money
  paid out), which is why line 60 negates it.
\<close>

definition pmt :: "real \<Rightarrow> nat \<Rightarrow> real \<Rightarrow> real \<Rightarrow> real \<Rightarrow> real" where
  "pmt rate nper pv fv when' =
     (let temp = (1 + rate) ^ nper;
          mask = (rate = 0);
          masked_rate = (if mask then 1 else rate);
          fact = (if mask then real nper
                  else (1 + masked_rate * when') * (temp - 1) / masked_rate)
      in - (fv + pv * temp) / fact)"

definition monthly_pi :: "Assumptions \<Rightarrow> real" where
  "monthly_pi a = - pmt (monthly_rate a) (n_periods a) (loan_amount a) 0 0"

definition taxable_value_base :: "Assumptions \<Rightarrow> real" where
  "taxable_value_base a = (purchase_price a - homestead_exemption a) * assessed_value_pct a"

definition initial_tax_bill :: "Assumptions \<Rightarrow> real" where
  "initial_tax_bill a = taxable_value_base a * tax_rate a"

subsection \<open>The state of the loop (lines 66--83)\<close>

text \<open>
  The script's variables are module globals, so the state after a year holds the four
  result lists, the eight running totals and the values the loop body assigned last.
  The latter are unbound before the first iteration; the initial state gives them 0,
  and no iteration reads them before it writes them.
\<close>

record sim_state =
  years :: "nat list"
  owner_net_outcome :: "real list"
  renter_net_outcome :: "real list"
  gap_data :: "real list"
  curr_home_value :: real
  curr_rent_monthly :: real
  curr_tax_bill :: real
  curr_hoa :: real
  curr_maint :: real
  curr_insurance :: real
  curr_loan_balance :: real
  renter_portfolio :: real
  owner_annual_spend :: real
  renter_annual_spend :: real
  cash_flow_diff :: real
  interest_paid :: real
  principal_paid :: real
  owner_equity :: real
  renter_equity :: real
  benefit :: real

definition init_state :: "Assumptions \<Rightarrow> sim_state" where
  "init_state a =
     \<lparr> years = [], owner_net_outcome = [], renter_net_outcome = [], gap_data = [],
       curr_home_value = initial_market_value a,
       curr_rent_monthly = monthly_rent a,
       curr_tax_bill = initial_tax_bill a,
       curr_hoa = hoa_monthly a,
       curr_maint = initial_market_value a * maintenance_rate a,
       curr_insurance = initial_market_value a * insurance_rate a,
       curr_loan_balance = loan_amount a,
       renter_portfolio = initial_cash_invested a,
       owner_annual_spend = 0, renter_annual_spend = 0, cash_flow_diff = 0,
       interest_paid = 0, principal_paid = 0,
       owner_equity = 0, renter_equity = 0, benefit = 0 \<rparr>"

subsection \<open>One year of the loop (lines 85--146)\<close>

text \<open>Step 1, lines 87--101: the escalation, which year 1 applies to the home value only.\<close>

definition escalate :: "Assumptions \<Rightarrow> nat \<Rightarrow> sim_state \<Rightarrow> sim_state" where
  "escalate a year s =
     (if year > 1 then
        (let tax_growth = min (inflation_rate a) (tax_cap_rate a)
         in s\<lparr> curr_home_value := curr_home_value s * (1 + appreciation_rate a),
               curr_rent_monthly := curr_rent_monthly s * (1 + rent_appreciation a),
               curr_hoa := curr_hoa s * (1 + inflation_rate a),
               curr_maint := curr_maint s * (1 + inflation_rate a),
               curr_insurance := curr_insurance s * (1 + inflation_rate a),
               curr_tax_bill := curr_tax_bill s * (1 + tax_growth) \<rparr>)
      else s\<lparr> curr_home_value := curr_home_value s * (1 + appreciation_rate a) \<rparr>)"

text \<open>Steps 2--4, lines 104--115: the two annual spends and the renter's portfolio.\<close>

definition cash_flows :: "Assumptions \<Rightarrow> sim_state \<Rightarrow> sim_state" where
  "cash_flows a s =
     (let owner_spend = (monthly_pi a * 12) + (curr_hoa s * 12) + curr_tax_bill s
                          + curr_maint s + curr_insurance s;
          renter_spend = curr_rent_monthly s * 12;
          diff = owner_spend - renter_spend
      in s\<lparr> owner_annual_spend := owner_spend,
            renter_annual_spend := renter_spend,
            cash_flow_diff := diff,
            renter_portfolio := (renter_portfolio s * (1 + cost_of_capital a)) + diff \<rparr>)"

text \<open>
  Step 5, lines 119--129. One month acts on the balance and on the year's two
  accumulators; a balance that is not positive is set to 0 and nothing is accumulated.
\<close>

fun pay_month :: "Assumptions \<Rightarrow> real \<times> real \<times> real \<Rightarrow> real \<times> real \<times> real" where
  "pay_month a (balance, interest_acc, principal_acc) =
     (if balance > 0 then
        (let interest = balance * monthly_rate a;
             principal = monthly_pi a - interest
         in (balance - principal, interest_acc + interest, principal_acc + principal))
      else (0, interest_acc, principal_acc))"

primrec pay_months :: "Assumptions \<Rightarrow> nat \<Rightarrow> real \<times> real \<times> real \<Rightarrow> real \<times> real \<times> real" where
  "pay_months a 0 t = t"
| "pay_months a (Suc k) t = pay_months a k (pay_month a t)"

definition pay_down_loan :: "Assumptions \<Rightarrow> sim_state \<Rightarrow> sim_state" where
  "pay_down_loan a s =
     (case pay_months a 12 (curr_loan_balance s, 0, 0) of
        (balance, interest_acc, principal_acc) \<Rightarrow>
          s\<lparr> curr_loan_balance := balance,
             interest_paid := interest_acc,
             principal_paid := principal_acc \<rparr>)"

text \<open>Steps 6 and 7, lines 134--146: the net worth positions, appended to the lists.\<close>

definition net_worth :: "Assumptions \<Rightarrow> nat \<Rightarrow> sim_state \<Rightarrow> sim_state" where
  "net_worth a year s =
     (let owner = curr_home_value s - (curr_home_value s * selling_costs_pct a)
                    - curr_loan_balance s;
          renter = renter_portfolio s;
          gap = owner - renter
      in s\<lparr> owner_equity := owner, renter_equity := renter, benefit := gap,
            years := years s @ [year],
            owner_net_outcome := owner_net_outcome s @ [owner],
            renter_net_outcome := renter_net_outcome s @ [renter],
            gap_data := gap_data s @ [gap] \<rparr>)"

definition year_body :: "Assumptions \<Rightarrow> nat \<Rightarrow> sim_state \<Rightarrow> sim_state" where
  "year_body a year s = net_worth a year (pay_down_loan a (cash_flows a (escalate a year s)))"

text \<open>
  The loop \<^verbatim>\<open>for year in range(1, 16)\<close>, cut after \<open>k\<close> years: \<open>run_years a k\<close> is the
  state at the end of year \<open>k\<close>, and the whole run is \<open>run_years a 15\<close>.
\<close>

definition run_years :: "Assumptions \<Rightarrow> nat \<Rightarrow> sim_state" where
  "run_years a k = foldl (\<lambda>s year. year_body a year s) (init_state a) [1..<Suc k]"

definition simulate :: "Assumptions \<Rightarrow> sim_state" where
  "simulate a = run_years a 15"

text \<open>
  The table of line 152: one row (year, owner wealth, renter wealth, net benefit) per
  simulated year, in the order of the lists.
\<close>

definition df_res :: "sim_state \<Rightarrow> (nat \<times> real \<times> real \<times> real) list" where
  "df_res s = zip (years s) (zip (owner_net_outcome s) (zip (renter_net_outcome s) (gap_data s)))"

text \<open>The end-to-end example of the specification (the script's default inputs).\<close>

definition default_assumptions :: Assumptions where
  "default_assumptions =
     \<lparr> purchase_price = 550000, down_payment_percent = 20 / 100,
       mortgage_rate = 625 / 10000, mortgage_term = 15,
       renovation_cost = 50000, reno_recapture = 80 / 100,
       hoa_monthly = 700, insurance_rate = 1 / 100, maintenance_rate = 1 / 100,
       tax_rate = 25 / 1000, assessed_value_pct = 86 / 100,
       homestead_exemption = 75000, tax_cap_rate = 3 / 100,
       appreciation_rate = 3 / 100, inflation_rate = 3 / 100,
       rent_appreciation = 3 / 100, cost_of_capital = 5 / 100,
       monthly_rent = 3500, selling_costs_pct = 7 / 100 \<rparr>"

subsection \<open>Auxiliary notions for the proofs\<close>

text \<open>
  The balance after \<open>k\<close> months of the loop of lines 121--129, started from the loan
  amount: the accumulators are reset every year, the balance is carried over.
\<close>

definition month_balance :: "Assumptions \<Rightarrow> nat \<Rightarrow> real" where
  "month_balance a k = fst (pay_months a k (loan_amount a, 0, 0))"

text \<open>
  The textbook amortisation schedule, in closed form: the balance that remains after
  \<open>k\<close> payments of an annuity loan over \<open>n_periods a\<close> months.
\<close>

definition schedule_balance :: "Assumptions \<Rightarrow> nat \<Rightarrow> real" where
  "schedule_balance a k =
     (if monthly_rate a = 0
      then loan_amount a * (real (n_periods a) - real k) / real (n_periods a)
      else loan_amount a * ((1 + monthly_rate a) ^ n_periods a - (1 + monthly_rate a) ^ k)
             / ((1 + monthly_rate a) ^ n_periods a - 1))"

text \<open>The default inputs with an interest-free loan.\<close>

definition zero_rate_assumptions :: Assumptions where
  "zero_rate_assumptions = default_assumptions\<lparr> mortgage_rate := 0 \<rparr>"

text \<open>The default inputs with the 30-year term.\<close>

definition thirty_year_assumptions :: Assumptions where
  "thirty_year_assumptions = default_assumptions\<lparr> mortgage_term := 30 \<rparr>"

text \<open>The default inputs with inflation (5 percent) above the tax cap (3 percent).\<close>

definition high_inflation_assumptions :: Assumptions where
  "high_inflation_assumptions = default_assumptions\<lparr> inflation_rate := 5 / 100 \<rparr>"



text \<open>
  Two inputs that differ at most in the appreciation rate and the selling-costs
  fraction: the seventeen other fields are equal.
\<close>

definition differ_only_in_sale_inputs :: "Assumptions \<Rightarrow> Assumptions \<Rightarrow> bool" where
  "differ_only_in_sale_inputs a b \<longleftrightarrow>
     purchase_price a = purchase_price b \<and>
     down_payment_percent a = down_payment_percent b \<and>
     mortgage_rate a = mortgage_rate b \<and>
     mortgage_term a = mortgage_term b \<and>
     renovation_cost a = renovation_cost b \<and>
     reno_recapture a = reno_recapture b \<and>
     hoa_monthly a = hoa_monthly b \<and>
     insurance_rate a = insurance_rate b \<and>
     maintenance_rate a = maintenance_rate b \<and>
     tax_rate a = tax_rate b \<and>
     assessed_value_pct a = assessed_value_pct b \<and>
     homestead_exemption a = homestead_exemption b \<and>
     tax_cap_rate a = tax_cap_rate b \<and>
     inflation_rate a = inflation_rate b \<and>
     rent_appreciation a = rent_appreciation b \<and>
     cost_of_capital a = cost_of_capital b \<and>
     monthly_rent a = monthly_rent b"

text \<open>The part of the state that the renter's side reads and writes.\<close>

definition renter_view ::
  "sim_state \<Rightarrow> (real \<times> real \<times> real \<times> real \<times> real \<times> real \<times> real) \<times> real \<times> real list" where
  "renter_view s =
     ((curr_rent_monthly s, curr_tax_bill s, curr_hoa s, curr_maint s, curr_insurance s,
       curr_loan_balance s, renter_portfolio s),
      renter_equity s, renter_net_outcome s)"

text \<open>The default inputs with a booming market and a costly sale.\<close>

definition boom_assumptions :: Assumptions where
  "boom_assumptions =
     default_assumptions\<lparr> appreciation_rate := 10 / 100, selling_costs_pct := 20 / 100 \<rparr>"

subsection \<open>The script on top of earlier variable values\<close>

text \<open>
  Lines 67--83 executed in a module namespace whose variables already hold the values
  of \<open>s0\<close>: the four lists and the eight running totals are assigned; the eight variables
  that only the loop body assigns keep what \<open>s0\<close> holds.
\<close>

definition initialise :: "Assumptions \<Rightarrow> sim_state \<Rightarrow> sim_state" where
  "initialise a s0 =
     s0\<lparr> years := [], owner_net_outcome := [], renter_net_outcome := [], gap_data := [],
         curr_home_value := initial_market_value a,
         curr_rent_monthly := monthly_rent a,
         curr_tax_bill := initial_tax_bill a,
         curr_hoa := hoa_monthly a,
         curr_maint := initial_market_value a * maintenance_rate a,
         curr_insurance := initial_market_value a * insurance_rate a,
         curr_loan_balance := loan_amount a,
         renter_portfolio := initial_cash_invested a \<rparr>"

text \<open>The whole script, lines 51--146, run on top of the variable values \<open>s0\<close>.\<close>

definition script_from :: "sim_state \<Rightarrow> Assumptions \<Rightarrow> sim_state" where
  "script_from s0 a = foldl (\<lambda>s year. year_body a year s) (initialise a s0) [1..<16]"

subsection \<open>The loan side in binary64 arithmetic\<close>

text \<open>
  Rounding to binary64: \<open>binade x\<close> is the exponent \<open>e\<close> with \<open>2 ^ e \<le> \<bar>x\<bar> < 2 ^ (e + 1)\<close>, and
  \<open>fl x\<close> is the multiple of \<open>2 ^ (e - 52)\<close> nearest to \<open>x\<close>, a tie going to the even
  multiple: 53 significant bits, round to nearest even, as IEEE 754 prescribes for
  \<open>+\<close>, \<open>-\<close>, \<open>*\<close> and \<open>/\<close>. The exponent range is not bounded (no overflow, no
  subnormal numbers); the run below stays between \<open>2 ^ (- 27)\<close> and \<open>2 ^ 22\<close>.
\<close>

definition binade :: "real \<Rightarrow> int" where
  "binade x =
     (if 1 \<le> \<bar>x\<bar> then bitlen \<lfloor>\<bar>x\<bar>\<rfloor> - 1
      else - bitlen (\<lceil>1 / \<bar>x\<bar>\<rceil> - 1))"

definition round_half_even :: "real \<Rightarrow> int" where
  "round_half_even x =
     (let q = \<lfloor>x\<rfloor>; d = x - of_int q
      in if d < 1 / 2 then q
         else if 1 / 2 < d then q + 1
         else if even q then q else q + 1)"

definition fl :: "real \<Rightarrow> real" where
  "fl x =
     (if x = 0 then 0
      else of_int (round_half_even (x / 2 powi (binade x - 52))) * 2 powi (binade x - 52))"

text \<open>
  The inputs as binary64 numbers, which is how the widgets deliver them: a field such
  as the down payment fraction 0.2 is the binary64 number nearest to it.
\<close>

definition binary64_input :: "Assumptions \<Rightarrow> Assumptions" where
  "binary64_input a =
     \<lparr> purchase_price = fl (purchase_price a),
       down_payment_percent = fl (down_payment_percent a),
       mortgage_rate = fl (mortgage_rate a),
       mortgage_term = mortgage_term a,
       renovation_cost = fl (renovation_cost a),
       reno_recapture = fl (reno_recapture a),
       hoa_monthly = fl (hoa_monthly a),
       insurance_rate = fl (insurance_rate a),
       maintenance_rate = fl (maintenance_rate a),
       tax_rate = fl (tax_rate a),
       assessed_value_pct = fl (assessed_value_pct a),
       homestead_exemption = fl (homestead_exemption a),
       tax_cap_rate = fl (tax_cap_rate a),
       appreciation_rate = fl (appreciation_rate a),
       inflation_rate = fl (inflation_rate a),
       rent_appreciation = fl (rent_appreciation a),
       cost_of_capital = fl (cost_of_capital a),
       monthly_rent = fl (monthly_rent a),
       selling_costs_pct = fl (selling_costs_pct a) \<rparr>"

text \<open>The script's default inputs, as binary64 numbers.\<close>

definition binary64_defaults :: Assumptions where
  "binary64_defaults = binary64_input default_assumptions"

text \<open>Lines 52, 53 and 58, each operation rounded.\<close>

definition down_payment_dollars64 :: "Assumptions \<Rightarrow> real" where
  "down_payment_dollars64 a = fl (purchase_price a * down_payment_percent a)"

definition loan_amount64 :: "Assumptions \<Rightarrow> real" where
  "loan_amount64 a = fl (purchase_price a - down_payment_dollars64 a)"

definition monthly_rate64 :: "Assumptions \<Rightarrow> real" where
  "monthly_rate64 a = fl (mortgage_rate a / 12)"

text \<open>
  Modelled from the spec: the binary64 reading of \<^verbatim>\<open>npf.pmt\<close>, which is not part of
  \<^verbatim>\<open>src/\<close>. It is the formula of \<open>pmt\<close> above with every operation rounded, in the
  order in which the library evaluates it; the power \<open>(1 + rate) ** nper\<close> is taken as
  correctly rounded, which is the value the C library returns at the input used below.
\<close>

definition pow64 :: "real \<Rightarrow> nat \<Rightarrow> real" where
  "pow64 x n = fl (x ^ n)"

definition pmt64 :: "real \<Rightarrow> nat \<Rightarrow> real \<Rightarrow> real \<Rightarrow> real \<Rightarrow> real" where
  "pmt64 rate nper pv fv when' =
     (let temp = pow64 (fl (1 + rate)) nper;
          mask = (rate = 0);
          masked_rate = (if mask then 1 else rate);
          fact = (if mask then real nper
                  else fl (fl (fl (1 + fl (masked_rate * when')) * fl (temp - 1)) / masked_rate))
      in fl (- fl (fv + fl (pv * temp)) / fact))"

definition monthly_pi64 :: "Assumptions \<Rightarrow> real" where
  "monthly_pi64 a = - pmt64 (monthly_rate64 a) (n_periods a) (loan_amount64 a) 0 0"

text \<open>
  Lines 119--129 once more, each operation rounded. The balance is tested before the
  principal is subtracted, and the difference is stored as it is.
\<close>

fun pay_month64 :: "Assumptions \<Rightarrow> real \<times> real \<times> real \<Rightarrow> real \<times> real \<times> real" where
  "pay_month64 a (balance, interest_acc, principal_acc) =
     (if balance > 0 then
        (let interest = fl (balance * monthly_rate64 a);
             principal = fl (monthly_pi64 a - interest)
         in (fl (balance - principal), fl (interest_acc + interest),
             fl (principal_acc + principal)))
      else (0, interest_acc, principal_acc))"

primrec pay_months64 ::
  "Assumptions \<Rightarrow> nat \<Rightarrow> real \<times> real \<times> real \<Rightarrow> real \<times> real \<times> real" where
  "pay_months64 a 0 t = t"
| "pay_months64 a (Suc k) t = pay_months64 a k (pay_month64 a t)"

text \<open>
  The balance at the end of each year of the run: line 79 starts it at the loan amount,
  and every year runs the twelve months with fresh accumulators.
\<close>

primrec loan_balance64 :: "Assumptions \<Rightarrow> nat \<Rightarrow> real" where
  "loan_balance64 a 0 = loan_amount64 a"
| "loan_balance64 a (Suc y) = fst (pay_months64 a 12 (loan_balance64 a y, 0, 0))"

text \<open>The balance component of one month, without the accumulators.\<close>

definition balance_month64 :: "Assumptions \<Rightarrow> real \<Rightarrow> real" where
  "balance_month64 a b =
     (if b > 0 then fl (b - fl (monthly_pi64 a - fl (b * monthly_rate64 a))) else 0)"

section \<open>Properties\<close>

subsection \<open>Basic facts\<close>

lemma wellformed_default: "wellformed default_assumptions"
  by (simp add: wellformed_def default_assumptions_def)

lemma run_years_0: "run_years a 0 = init_state a"
  by (simp add: run_years_def)

lemma run_years_Suc: "run_years a (Suc k) = year_body a (Suc k) (run_years a k)"
  by (simp add: run_years_def)

subsection \<open>The payment and the amortisation schedule\<close>

lemma wellformed_rate: "wellformed a \<Longrightarrow> 0 \<le> monthly_rate a"
  by (simp add: wellformed_def monthly_rate_def)

lemma wellformed_loan: "wellformed a \<Longrightarrow> 0 \<le> loan_amount a"
proof -
  assume w: "wellformed a"
  then have "purchase_price a * down_payment_percent a \<le> purchase_price a * 1"
    by (intro mult_left_mono) (simp_all add: wellformed_def)
  then show ?thesis by (simp add: loan_amount_def down_payment_dollars_def)
qed

lemma wellformed_periods: "wellformed a \<Longrightarrow> n_periods a = 180 \<or> n_periods a = 360"
  by (auto simp: wellformed_def n_periods_def)

text \<open>
  The payment solves the equation by which the library documents \<^verbatim>\<open>pmt\<close>:
  \<open>fv + pv * (1 + rate) ^ nper + pmt * (1 + rate * when) / rate * ((1 + rate) ^ nper - 1) = 0\<close>,
  and \<open>fv + pv + pmt * nper = 0\<close> at rate 0.
\<close>

lemma pmt_solves_equation:
  assumes "rate \<noteq> 0" "(1 + rate) ^ nper \<noteq> 1" "1 + rate * w \<noteq> 0"
  shows "fv + pv * (1 + rate) ^ nper
           + pmt rate nper pv fv w * (1 + rate * w) / rate * ((1 + rate) ^ nper - 1) = 0"
  using assms by (simp add: pmt_def Let_def)

lemma pmt_solves_equation_zero_rate:
  assumes "nper \<noteq> 0"
  shows "fv + pv + pmt 0 nper pv fv w * real nper = 0"
  using assms by (simp add: pmt_def Let_def)

lemma monthly_pi_zero_rate: "monthly_rate a = 0 \<Longrightarrow> monthly_pi a = loan_amount a / real (n_periods a)"
  by (simp add: monthly_pi_def pmt_def)

lemma monthly_pi_pos_rate:
  "monthly_rate a \<noteq> 0 \<Longrightarrow>
   monthly_pi a = loan_amount a * monthly_rate a * (1 + monthly_rate a) ^ n_periods a
                    / ((1 + monthly_rate a) ^ n_periods a - 1)"
  by (simp add: monthly_pi_def pmt_def Let_def)

lemma growth_gt_1: "0 < r \<Longrightarrow> 0 < n \<Longrightarrow> 1 < (1 + r :: real) ^ n"
  by (simp add: one_less_power)

lemma schedule_balance_0:
  assumes "0 \<le> monthly_rate a" "0 < n_periods a"
  shows "schedule_balance a 0 = loan_amount a"
proof (cases "monthly_rate a = 0")
  case True
  with assms show ?thesis by (simp add: schedule_balance_def)
next
  case False
  with assms have "1 < (1 + monthly_rate a) ^ n_periods a" by (simp add: growth_gt_1)
  with False show ?thesis by (simp add: schedule_balance_def)
qed

lemma schedule_balance_step:
  assumes "0 \<le> monthly_rate a" "0 < n_periods a"
  shows "schedule_balance a (Suc k) =
           schedule_balance a k - (monthly_pi a - schedule_balance a k * monthly_rate a)"
proof (cases "monthly_rate a = 0")
  case True
  with assms show ?thesis
    by (simp add: schedule_balance_def monthly_pi_zero_rate field_simps)
next
  case False
  define q where "q = 1 + monthly_rate a"
  define d where "d = q ^ n_periods a - 1"
  from False assms have "0 < d" unfolding d_def q_def by (simp add: growth_gt_1)
  then have d0: "d \<noteq> 0" by simp
  have r: "monthly_rate a = q - 1" by (simp add: q_def)
  have sb: "schedule_balance a j = loan_amount a * (q ^ n_periods a - q ^ j) / d" for j
    using False by (simp add: schedule_balance_def q_def d_def)
  have pi: "monthly_pi a = loan_amount a * (q - 1) * q ^ n_periods a / d"
    using False by (simp add: monthly_pi_pos_rate q_def d_def)
  show ?thesis
    unfolding sb pi r using d0 by (simp add: field_simps)
qed

lemma schedule_balance_pos:
  assumes "0 \<le> monthly_rate a" "0 < loan_amount a" "k < n_periods a"
  shows "0 < schedule_balance a k"
proof (cases "monthly_rate a = 0")
  case True
  with assms show ?thesis by (simp add: schedule_balance_def)
next
  case False
  with assms have r: "0 < monthly_rate a" by simp
  then have d: "1 < (1 + monthly_rate a) ^ n_periods a" using assms by (simp add: growth_gt_1)
  have "(1 + monthly_rate a) ^ k < (1 + monthly_rate a) ^ n_periods a"
    using r assms(3) by (intro power_strict_increasing) simp_all
  with d assms False show ?thesis by (simp add: schedule_balance_def)
qed


lemma schedule_balance_zero_loan: "loan_amount a = 0 \<Longrightarrow> schedule_balance a k = 0"
  by (simp add: schedule_balance_def)

lemma monthly_pi_zero_loan: "loan_amount a = 0 \<Longrightarrow> monthly_pi a = 0"
  by (simp add: monthly_pi_def pmt_def Let_def)

lemma pay_months_Suc_end: "pay_months a (Suc k) t = pay_month a (pay_months a k t)"
  by (induction k arbitrary: t) simp_all

lemma pay_months_add: "pay_months a (j + k) t = pay_months a k (pay_months a j t)"
  by (induction j arbitrary: t) simp_all

lemma pay_months_schedule_from:
  assumes "0 \<le> monthly_rate a" "0 \<le> loan_amount a" "0 < n_periods a" "j + k \<le> n_periods a"
  shows "pay_months a k (schedule_balance a j, i, p) =
           (schedule_balance a (j + k),
            i + (real k * monthly_pi a - (schedule_balance a j - schedule_balance a (j + k))),
            p + (schedule_balance a j - schedule_balance a (j + k)))"
  using assms(4)
proof (induction k)
  case 0
  show ?case by simp
next
  case (Suc k)
  then have IH: "pay_months a k (schedule_balance a j, i, p) =
           (schedule_balance a (j + k),
            i + (real k * monthly_pi a - (schedule_balance a j - schedule_balance a (j + k))),
            p + (schedule_balance a j - schedule_balance a (j + k)))"
    and k: "j + k < n_periods a" by simp_all
  have step: "schedule_balance a (Suc (j + k)) =
           schedule_balance a (j + k) - (monthly_pi a - schedule_balance a (j + k) * monthly_rate a)"
    using assms by (intro schedule_balance_step)
  show ?case
  proof (cases "0 < loan_amount a")
    case True
    then have "0 < schedule_balance a (j + k)" using assms k by (intro schedule_balance_pos)
    then show ?thesis
      unfolding pay_months_Suc_end IH by (simp add: step Let_def algebra_simps)
  next
    case False
    with assms have z: "loan_amount a = 0" by simp
    show ?thesis
      unfolding pay_months_Suc_end IH
      by (simp add: schedule_balance_zero_loan [OF z] monthly_pi_zero_loan [OF z])
  qed
qed

lemma pay_months_schedule:
  assumes "0 \<le> monthly_rate a" "0 \<le> loan_amount a" "0 < n_periods a" "k \<le> n_periods a"
  shows "pay_months a k (loan_amount a, 0, 0) =
           (schedule_balance a k,
            real k * monthly_pi a - (loan_amount a - schedule_balance a k),
            loan_amount a - schedule_balance a k)"
  using pay_months_schedule_from [where j = 0 and k = k and i = 0 and p = 0, OF assms(1-3)] assms
  by (simp add: schedule_balance_0)

text \<open>The balance does not depend on the accumulators.\<close>

lemma fst_pay_month: "fst (pay_month a (b, i, p)) = fst (pay_month a (b, i', p'))"
  by (simp add: Let_def)

lemma fst_pay_months: "fst (pay_months a k (b, i, p)) = fst (pay_months a k (b, i', p'))"
proof (induction k arbitrary: b i p i' p')
  case 0
  show ?case by simp
next
  case (Suc k)
  obtain b1 i1 p1 where t: "pay_month a (b, i, p) = (b1, i1, p1)" by (cases "pay_month a (b, i, p)")
  obtain b2 i2 p2 where u: "pay_month a (b, i', p') = (b2, i2, p2)" by (cases "pay_month a (b, i', p')")
  have "b1 = b2" using fst_pay_month [of a b i p i' p'] t u by simp
  then show ?case using Suc.IH [of b1 i1 p1 i2 p2] t u by simp
qed

lemma year_body_balance:
  "curr_loan_balance (year_body a y s) = fst (pay_months a 12 (curr_loan_balance s, 0, 0))"
  by (simp add: year_body_def net_worth_def pay_down_loan_def cash_flows_def escalate_def Let_def
      split: prod.split)

lemma run_years_balance: "curr_loan_balance (run_years a y) = month_balance a (12 * y)"
proof (induction y)
  case 0
  show ?case by (simp add: run_years_0 init_state_def month_balance_def)
next
  case (Suc y)
  obtain b i p where t: "pay_months a (12 * y) (loan_amount a, 0, 0) = (b, i, p)"
    by (cases "pay_months a (12 * y) (loan_amount a, 0, 0)")
  have "12 * Suc y = 12 * y + 12" by simp
  then have "month_balance a (12 * Suc y) = fst (pay_months a 12 (b, i, p))"
    unfolding month_balance_def by (simp only: pay_months_add t)
  also have "\<dots> = fst (pay_months a 12 (b, 0, 0))" by (rule fst_pay_months)
  finally show ?case using Suc t by (simp add: run_years_Suc year_body_balance month_balance_def)
qed

lemma month_balance_schedule:
  assumes "wellformed a" "k \<le> 180"
  shows "month_balance a k = schedule_balance a k"
proof -
  from assms have "k \<le> n_periods a" "0 < n_periods a" using wellformed_periods [of a] by auto
  then show ?thesis
    using assms pay_months_schedule [of a k]
    by (simp add: month_balance_def wellformed_rate wellformed_loan)
qed

subsection \<open>What one year does to each variable\<close>

lemmas year_body_defs =
  year_body_def net_worth_def pay_down_loan_def cash_flows_def escalate_def Let_def

lemma year_body_home_value:
  "curr_home_value (year_body a y s) = curr_home_value s * (1 + appreciation_rate a)"
  by (simp add: year_body_defs split: prod.split)

lemma year_body_rent:
  "curr_rent_monthly (year_body a y s) =
     (if y > 1 then curr_rent_monthly s * (1 + rent_appreciation a) else curr_rent_monthly s)"
  by (simp add: year_body_defs split: prod.split)

lemma year_body_hoa:
  "curr_hoa (year_body a y s) =
     (if y > 1 then curr_hoa s * (1 + inflation_rate a) else curr_hoa s)"
  by (simp add: year_body_defs split: prod.split)

lemma year_body_maint:
  "curr_maint (year_body a y s) =
     (if y > 1 then curr_maint s * (1 + inflation_rate a) else curr_maint s)"
  by (simp add: year_body_defs split: prod.split)

lemma year_body_insurance:
  "curr_insurance (year_body a y s) =
     (if y > 1 then curr_insurance s * (1 + inflation_rate a) else curr_insurance s)"
  by (simp add: year_body_defs split: prod.split)

lemma year_body_tax_bill:
  "curr_tax_bill (year_body a y s) =
     (if y > 1 then curr_tax_bill s * (1 + min (inflation_rate a) (tax_cap_rate a))
      else curr_tax_bill s)"
  by (simp add: year_body_defs split: prod.split)

lemma year_body_owner_spend:
  "owner_annual_spend (year_body a y s) =
     (monthly_pi a * 12) + (curr_hoa (year_body a y s) * 12) + curr_tax_bill (year_body a y s)
       + curr_maint (year_body a y s) + curr_insurance (year_body a y s)"
  by (simp add: year_body_defs split: prod.split)

lemma year_body_renter_spend:
  "renter_annual_spend (year_body a y s) = curr_rent_monthly (year_body a y s) * 12"
  by (simp add: year_body_defs split: prod.split)

lemma year_body_cash_flow_diff:
  "cash_flow_diff (year_body a y s) =
     owner_annual_spend (year_body a y s) - renter_annual_spend (year_body a y s)"
  by (simp add: year_body_defs split: prod.split)

lemma year_body_portfolio:
  "renter_portfolio (year_body a y s) =
     (renter_portfolio s * (1 + cost_of_capital a)) + cash_flow_diff (year_body a y s)"
  by (simp add: year_body_defs split: prod.split)

lemma year_body_owner_equity:
  "owner_equity (year_body a y s) =
     curr_home_value (year_body a y s) - (curr_home_value (year_body a y s) * selling_costs_pct a)
       - curr_loan_balance (year_body a y s)"
  by (simp add: year_body_defs split: prod.split)

lemma year_body_renter_equity:
  "renter_equity (year_body a y s) = renter_portfolio (year_body a y s)"
  by (simp add: year_body_defs split: prod.split)

lemma year_body_benefit:
  "benefit (year_body a y s) = owner_equity (year_body a y s) - renter_equity (year_body a y s)"
  by (simp add: year_body_defs split: prod.split)

lemma year_body_lists:
  "years (year_body a y s) = years s @ [y]"
  "owner_net_outcome (year_body a y s) = owner_net_outcome s @ [owner_equity (year_body a y s)]"
  "renter_net_outcome (year_body a y s) = renter_net_outcome s @ [renter_equity (year_body a y s)]"
  "gap_data (year_body a y s) = gap_data s @ [benefit (year_body a y s)]"
  by (simp_all add: year_body_defs split: prod.split)

lemma run_years_home_value:
  "curr_home_value (run_years a k) = initial_market_value a * (1 + appreciation_rate a) ^ k"
  by (induction k) (simp_all add: run_years_0 run_years_Suc year_body_home_value init_state_def)

lemma run_years_rent:
  "curr_rent_monthly (run_years a (Suc k)) = monthly_rent a * (1 + rent_appreciation a) ^ k"
  by (induction k) (simp_all add: run_years_0 run_years_Suc year_body_rent init_state_def)

lemma run_years_hoa:
  "curr_hoa (run_years a (Suc k)) = hoa_monthly a * (1 + inflation_rate a) ^ k"
  by (induction k) (simp_all add: run_years_0 run_years_Suc year_body_hoa init_state_def)

lemma run_years_maint:
  "curr_maint (run_years a (Suc k)) =
     initial_market_value a * maintenance_rate a * (1 + inflation_rate a) ^ k"
  by (induction k) (simp_all add: run_years_0 run_years_Suc year_body_maint init_state_def)

lemma run_years_insurance:
  "curr_insurance (run_years a (Suc k)) =
     initial_market_value a * insurance_rate a * (1 + inflation_rate a) ^ k"
  by (induction k) (simp_all add: run_years_0 run_years_Suc year_body_insurance init_state_def)

lemma run_years_tax_bill:
  "curr_tax_bill (run_years a (Suc k)) =
     initial_tax_bill a * (1 + min (inflation_rate a) (tax_cap_rate a)) ^ k"
  by (induction k) (simp_all add: run_years_0 run_years_Suc year_body_tax_bill init_state_def)

lemma run_years_years: "years (run_years a k) = [1..<Suc k]"
  by (induction k) (simp_all add: run_years_0 run_years_Suc year_body_lists init_state_def)

lemma run_years_owner_net_outcome:
  "owner_net_outcome (run_years a k) = map (\<lambda>y. owner_equity (run_years a y)) [1..<Suc k]"
  by (induction k) (simp_all add: run_years_0 run_years_Suc year_body_lists init_state_def)

lemma run_years_renter_net_outcome:
  "renter_net_outcome (run_years a k) = map (\<lambda>y. renter_equity (run_years a y)) [1..<Suc k]"
  by (induction k) (simp_all add: run_years_0 run_years_Suc year_body_lists init_state_def)

lemma run_years_gap_data:
  "gap_data (run_years a k) = map (\<lambda>y. benefit (run_years a y)) [1..<Suc k]"
  by (induction k) (simp_all add: run_years_0 run_years_Suc year_body_lists init_state_def)

subsection \<open>Rows of the table and the renter's view of the state\<close>

lemma zip_columns:
  "zip xs (zip (map f xs) (zip (map g xs) (map h xs))) = map (\<lambda>x. (x, f x, g x, h x)) xs"
  by (induction xs) simp_all

lemma differ_only_derived:
  assumes "differ_only_in_sale_inputs a b"
  shows "monthly_pi a = monthly_pi b" "monthly_rate a = monthly_rate b"
    "loan_amount a = loan_amount b" "initial_tax_bill a = initial_tax_bill b"
    "initial_cash_invested a = initial_cash_invested b"
    "initial_market_value a = initial_market_value b"
  using assms
  by (simp_all add: differ_only_in_sale_inputs_def monthly_pi_def monthly_rate_def n_periods_def
      loan_amount_def down_payment_dollars_def initial_tax_bill_def taxable_value_base_def
      initial_cash_invested_def initial_market_value_def)

lemma differ_only_pay_months:
  assumes "differ_only_in_sale_inputs a b"
  shows "pay_months a k t = pay_months b k t"
proof (induction k arbitrary: t)
  case 0
  show ?case by simp
next
  case (Suc k)
  have "pay_month a t = pay_month b t"
    by (cases t) (simp add: differ_only_derived [OF assms])
  with Suc show ?case by simp
qed

lemma renter_view_init:
  assumes "differ_only_in_sale_inputs a b"
  shows "renter_view (init_state a) = renter_view (init_state b)"
  using assms differ_only_derived [OF assms]
  by (simp add: renter_view_def init_state_def differ_only_in_sale_inputs_def)

lemma renter_view_year_body:
  assumes "differ_only_in_sale_inputs a b" "renter_view s = renter_view t"
  shows "renter_view (year_body a y s) = renter_view (year_body b y t)"
proof -
  from assms(2) have eq: "curr_rent_monthly s = curr_rent_monthly t"
    "curr_tax_bill s = curr_tax_bill t" "curr_hoa s = curr_hoa t" "curr_maint s = curr_maint t"
    "curr_insurance s = curr_insurance t" "curr_loan_balance s = curr_loan_balance t"
    "renter_portfolio s = renter_portfolio t" "renter_net_outcome s = renter_net_outcome t"
    by (simp_all add: renter_view_def)
  from assms(1) have f: "inflation_rate a = inflation_rate b" "tax_cap_rate a = tax_cap_rate b"
    "rent_appreciation a = rent_appreciation b" "cost_of_capital a = cost_of_capital b"
    by (simp_all add: differ_only_in_sale_inputs_def)
  have costs: "curr_rent_monthly (year_body a y s) = curr_rent_monthly (year_body b y t)"
    "curr_tax_bill (year_body a y s) = curr_tax_bill (year_body b y t)"
    "curr_hoa (year_body a y s) = curr_hoa (year_body b y t)"
    "curr_maint (year_body a y s) = curr_maint (year_body b y t)"
    "curr_insurance (year_body a y s) = curr_insurance (year_body b y t)"
    by (simp_all add: year_body_rent year_body_tax_bill year_body_hoa year_body_maint
        year_body_insurance eq f)
  have bal: "curr_loan_balance (year_body a y s) = curr_loan_balance (year_body b y t)"
    by (simp add: year_body_balance eq differ_only_pay_months [OF assms(1)])
  have port: "renter_portfolio (year_body a y s) = renter_portfolio (year_body b y t)"
    by (simp add: year_body_portfolio year_body_cash_flow_diff year_body_owner_spend
        year_body_renter_spend costs eq f differ_only_derived [OF assms(1)])
  then have req: "renter_equity (year_body a y s) = renter_equity (year_body b y t)"
    by (simp add: year_body_renter_equity)
  then have out: "renter_net_outcome (year_body a y s) = renter_net_outcome (year_body b y t)"
    by (simp add: year_body_lists eq)
  from costs bal port req out show ?thesis by (simp add: renter_view_def)
qed

lemma renter_view_run_years:
  assumes "differ_only_in_sale_inputs a b"
  shows "renter_view (run_years a k) = renter_view (run_years b k)"
proof (induction k)
  case 0
  show ?case by (simp add: run_years_0 renter_view_init [OF assms])
next
  case (Suc k)
  then show ?case unfolding run_years_Suc by (rule renter_view_year_body [OF assms])
qed

subsection \<open>What the run pays\<close>

lemma year_body_paid:
  "interest_paid (year_body a y s) = fst (snd (pay_months a 12 (curr_loan_balance s, 0, 0)))"
  "principal_paid (year_body a y s) = snd (snd (pay_months a 12 (curr_loan_balance s, 0, 0)))"
  by (simp_all add: year_body_defs split: prod.split)



subsection \<open>Earlier variable values do not matter\<close>

lemma initialise_fields:
  "years (initialise a s0) = []" "owner_net_outcome (initialise a s0) = []"
  "renter_net_outcome (initialise a s0) = []" "gap_data (initialise a s0) = []"
  "curr_home_value (initialise a s0) = initial_market_value a"
  "curr_rent_monthly (initialise a s0) = monthly_rent a"
  "curr_tax_bill (initialise a s0) = initial_tax_bill a"
  "curr_hoa (initialise a s0) = hoa_monthly a"
  "curr_maint (initialise a s0) = initial_market_value a * maintenance_rate a"
  "curr_insurance (initialise a s0) = initial_market_value a * insurance_rate a"
  "curr_loan_balance (initialise a s0) = loan_amount a"
  "renter_portfolio (initialise a s0) = initial_cash_invested a"
  by (simp_all add: initialise_def)

lemma year_body_initialise:
  "year_body a y (initialise a s0) = year_body a y (init_state a)"
proof (rule sim_state.equality)
  show "years (year_body a y (initialise a s0)) = years (year_body a y (init_state a))"
    "owner_net_outcome (year_body a y (initialise a s0))
       = owner_net_outcome (year_body a y (init_state a))"
    "renter_net_outcome (year_body a y (initialise a s0))
       = renter_net_outcome (year_body a y (init_state a))"
    "gap_data (year_body a y (initialise a s0)) = gap_data (year_body a y (init_state a))"
    "curr_home_value (year_body a y (initialise a s0))
       = curr_home_value (year_body a y (init_state a))"
    "curr_rent_monthly (year_body a y (initialise a s0))
       = curr_rent_monthly (year_body a y (init_state a))"
    "curr_tax_bill (year_body a y (initialise a s0)) = curr_tax_bill (year_body a y (init_state a))"
    "curr_hoa (year_body a y (initialise a s0)) = curr_hoa (year_body a y (init_state a))"
    "curr_maint (year_body a y (initialise a s0)) = curr_maint (year_body a y (init_state a))"
    "curr_insurance (year_body a y (initialise a s0))
       = curr_insurance (year_body a y (init_state a))"
    "curr_loan_balance (year_body a y (initialise a s0))
       = curr_loan_balance (year_body a y (init_state a))"
    "renter_portfolio (year_body a y (initialise a s0))
       = renter_portfolio (year_body a y (init_state a))"
    "owner_annual_spend (year_body a y (initialise a s0))
       = owner_annual_spend (year_body a y (init_state a))"
    "renter_annual_spend (year_body a y (initialise a s0))
       = renter_annual_spend (year_body a y (init_state a))"
    "cash_flow_diff (year_body a y (initialise a s0))
       = cash_flow_diff (year_body a y (init_state a))"
    "interest_paid (year_body a y (initialise a s0)) = interest_paid (year_body a y (init_state a))"
    "principal_paid (year_body a y (initialise a s0))
       = principal_paid (year_body a y (init_state a))"
    "owner_equity (year_body a y (initialise a s0)) = owner_equity (year_body a y (init_state a))"
    "renter_equity (year_body a y (initialise a s0))
       = renter_equity (year_body a y (init_state a))"
    "benefit (year_body a y (initialise a s0)) = benefit (year_body a y (init_state a))"
    by (simp_all add: year_body_lists year_body_home_value year_body_rent year_body_tax_bill
        year_body_hoa year_body_maint year_body_insurance year_body_balance year_body_portfolio
        year_body_owner_spend year_body_renter_spend year_body_cash_flow_diff year_body_paid
        year_body_owner_equity year_body_renter_equity year_body_benefit
        initialise_fields init_state_def)
qed simp

lemma script_from_simulate: "script_from s0 a = simulate a"
proof -
  have u: "[1..<16] = 1 # [2..<16]" "[1..<Suc 15] = 1 # [2..<16]"
    by (simp_all add: upt_conv_Cons del: upt_Suc)
  show ?thesis
    unfolding script_from_def simulate_def run_years_def
    by (simp only: u foldl_Cons year_body_initialise)
qed

subsection \<open>Binary64 rounding\<close>

lemma binade_bounds:
  assumes "x \<noteq> 0"
  shows "2 powi binade x \<le> \<bar>x\<bar>" "\<bar>x\<bar> < 2 powi (binade x + 1)"
proof -
  have "2 powi binade x \<le> \<bar>x\<bar> \<and> \<bar>x\<bar> < 2 powi (binade x + 1)"
  proof (cases "1 \<le> \<bar>x\<bar>")
    case True
    define n where "n = \<lfloor>\<bar>x\<bar>\<rfloor>"
    have n: "0 < n" using True by (simp add: n_def)
    define b where "b = bitlen n"
    from bitlen_bounds [OF n] have lo: "2 ^ nat (b - 1) \<le> n" and hi: "n < 2 ^ nat b"
      by (simp_all add: b_def)
    have b1: "1 \<le> b"
    proof (rule ccontr)
      assume "\<not> 1 \<le> b"
      then have "nat b = 0" by simp
      with hi n show False by simp
    qed
    have e: "binade x = b - 1" using True by (simp add: binade_def n_def b_def)
    have "of_int n \<le> \<bar>x\<bar>" "\<bar>x\<bar> < of_int (n + 1)"
      unfolding n_def by linarith+
    moreover have "(2::real) ^ nat (b - 1) \<le> of_int n"
      using lo by (metis of_int_le_iff of_int_numeral of_int_power)
    moreover have "n + 1 \<le> 2 ^ nat b" using hi by simp
    then have "of_int (n + 1) \<le> (2::real) ^ nat b"
      by (metis of_int_le_iff of_int_numeral of_int_power)
    ultimately have "(2::real) ^ nat (b - 1) \<le> \<bar>x\<bar>" "\<bar>x\<bar> < 2 ^ nat b" by linarith+
    then show ?thesis using b1 by (simp add: e power_int_def)
  next
    case False
    define y where "y = 1 / \<bar>x\<bar>"
    have x: "0 < \<bar>x\<bar>" "\<bar>x\<bar> < 1" using assms False by simp_all
    then have y1: "1 < y" by (simp add: y_def)
    define c where "c = \<lceil>y\<rceil>"
    have c: "of_int c - 1 < y" "y \<le> of_int c" unfolding c_def by linarith+
    have c2: "2 \<le> c" using y1 c(2) by linarith
    then have n: "0 < c - 1" by simp
    define b where "b = bitlen (c - 1)"
    from bitlen_bounds [OF n] have lo: "2 ^ nat (b - 1) \<le> c - 1" and hi: "c - 1 < 2 ^ nat b"
      by (simp_all add: b_def)
    have b1: "1 \<le> b"
    proof (rule ccontr)
      assume "\<not> 1 \<le> b"
      then have "nat b = 0" by simp
      with hi n show False by simp
    qed
    have e: "binade x = - b" using False by (simp add: binade_def y_def c_def b_def)
    have "(2::real) ^ nat (b - 1) \<le> of_int (c - 1)"
      using lo by (metis of_int_le_iff of_int_numeral of_int_power)
    then have ylo: "(2::real) ^ nat (b - 1) < y" using c(1) by simp
    have "c \<le> 2 ^ nat b" using hi by simp
    then have "of_int c \<le> (2::real) ^ nat b"
      by (metis of_int_le_iff of_int_numeral of_int_power)
    then have yhi: "y \<le> 2 ^ nat b" using c(2) by linarith
    have xy: "\<bar>x\<bar> = 1 / y" using x by (simp add: y_def)
    have A: "1 / (2::real) ^ nat b \<le> \<bar>x\<bar>"
      unfolding xy using yhi y1 by (simp add: frac_le)
    have B: "\<bar>x\<bar> < 1 / (2::real) ^ nat (b - 1)"
      unfolding xy using ylo by (simp add: frac_less2)
    have p1: "(2::real) powi (- b) = 1 / 2 ^ nat b"
      using b1 by (simp add: power_int_def field_simps)
    have p2: "(2::real) powi (1 - b) = 1 / 2 ^ nat (b - 1)"
    proof (cases "b = 1")
      case True
      then show ?thesis by simp
    next
      case False
      with b1 have "1 - b < 0" "nat (- (1 - b)) = nat (b - 1)" by simp_all
      then show ?thesis by (simp add: power_int_def field_simps)
    qed
    from A B show ?thesis by (simp add: e p1 p2)
  qed
  then show "2 powi binade x \<le> \<bar>x\<bar>" "\<bar>x\<bar> < 2 powi (binade x + 1)" by simp_all
qed

lemma binade_eqI:
  assumes "2 powi e \<le> \<bar>x\<bar>" "\<bar>x\<bar> < 2 powi (e + 1)"
  shows "binade x = e"
proof -
  have "0 < (2::real) powi e" by simp
  with assms(1) have "0 < \<bar>x\<bar>" by linarith
  then have x: "x \<noteq> 0" by simp
  note b = binade_bounds [OF x]
  have "\<not> e < binade x"
  proof
    assume "e < binade x"
    then have "(2::real) powi (e + 1) \<le> 2 powi binade x"
      by (intro power_int_increasing) simp_all
    with b(1) assms(2) show False by linarith
  qed
  moreover have "\<not> binade x < e"
  proof
    assume "binade x < e"
    then have "(2::real) powi (binade x + 1) \<le> 2 powi e"
      by (intro power_int_increasing) simp_all
    with b(2) assms(1) show False by linarith
  qed
  ultimately show ?thesis by simp
qed

lemma round_half_even_eqI:
  assumes "\<bar>y - of_int m\<bar> < 1 / 2"
  shows "round_half_even y = m"
proof (cases "of_int m \<le> y")
  case True
  with assms have "\<lfloor>y\<rfloor> = m" by (intro floor_unique) linarith+
  with assms True show ?thesis by (simp add: round_half_even_def Let_def)
next
  case False
  have "of_int (m - 1) \<le> y" "y < of_int (m - 1) + 1" using assms False by simp_all
  then have f: "\<lfloor>y\<rfloor> = m - 1" by (rule floor_unique)
  with assms False show ?thesis by (simp add: round_half_even_def Let_def)
qed

lemma round_half_even_error: "\<bar>of_int (round_half_even y) - y\<bar> \<le> 1 / 2"
proof -
  have "of_int \<lfloor>y\<rfloor> \<le> y" "y < of_int \<lfloor>y\<rfloor> + 1" by linarith+
  then show ?thesis by (auto simp: round_half_even_def Let_def)
qed

lemma fl_eqI:
  assumes "2 powi e \<le> \<bar>x\<bar>" "\<bar>x\<bar> < 2 powi (e + 1)"
    and "\<bar>x / 2 powi (e - 52) - of_int m\<bar> < 1 / 2"
  shows "fl x = of_int m * 2 powi (e - 52)"
proof -
  have "0 < (2::real) powi e" by simp
  with assms(1) have "0 < \<bar>x\<bar>" by linarith
  then have x: "x \<noteq> 0" by simp
  have "binade x = e" using assms(1,2) by (rule binade_eqI)
  with x assms(3) show ?thesis by (simp add: fl_def round_half_even_eqI)
qed

text \<open>The result is a multiple of the unit in the last place, at most half a unit away.\<close>

lemma fl_error: "\<bar>fl x - x\<bar> \<le> 2 powi (binade x - 53)"
proof (cases "x = 0")
  case True
  then show ?thesis by (simp add: fl_def)
next
  case False
  define u :: real where "u = 2 powi (binade x - 52)"
  have u: "0 < u" by (simp add: u_def)
  have "\<bar>of_int (round_half_even (x / u)) - x / u\<bar> \<le> 1 / 2" by (rule round_half_even_error)
  then have "\<bar>of_int (round_half_even (x / u)) - x / u\<bar> * u \<le> 1 / 2 * u"
    using u by (intro mult_right_mono) simp_all
  moreover have "\<bar>of_int (round_half_even (x / u)) - x / u\<bar> * u
                 = \<bar>of_int (round_half_even (x / u)) * u - x\<bar>"
  proof -
    have "\<bar>of_int (round_half_even (x / u)) - x / u\<bar> * u
            = \<bar>(of_int (round_half_even (x / u)) - x / u) * u\<bar>"
      using u by (simp add: abs_mult)
    also have "(of_int (round_half_even (x / u)) - x / u) * u
                 = of_int (round_half_even (x / u)) * u - x"
      using u by (simp add: field_simps)
    finally show ?thesis .
  qed
  ultimately have a: "\<bar>of_int (round_half_even (x / u)) * u - x\<bar> \<le> 1 / 2 * u"
    by simp
  have b: "1 / 2 * u = 2 powi (binade x - 53)"
    unfolding u_def by (simp add: power_int_diff)
  have c: "fl x = of_int (round_half_even (x / u)) * u"
    using False by (simp add: fl_def u_def)
  from a show ?thesis unfolding c b .
qed

subsection \<open>The default run in binary64\<close>

lemmas fl_eval = fl_def binade_def round_half_even_def Let_def bitlen_def compute_floorlog

lemma fst_pay_month64: "fst (pay_month64 a (b, i, p)) = balance_month64 a b"
  by (simp add: balance_month64_def Let_def)

lemma fst_pay_months64: "fst (pay_months64 a k (b, i, p)) = (balance_month64 a ^^ k) b"
proof (induction k arbitrary: b i p)
  case 0
  show ?case by simp
next
  case (Suc k)
  obtain b' i' p' where t: "pay_month64 a (b, i, p) = (b', i', p')"
    by (cases "pay_month64 a (b, i, p)")
  then have "b' = balance_month64 a b" using fst_pay_month64 [of a b i p] by simp
  with Suc [of b' i' p'] t show ?case by (simp add: funpow_swap1)
qed

lemma loan_balance64_step:
  "y = Suc x \<Longrightarrow>
   loan_balance64 a y = (balance_month64 a ^^ 12) (loan_balance64 a x)"
  by (simp add: fst_pay_months64)

lemma funpow_12: "(f ^^ 12) x = f (f (f (f (f (f (f (f (f (f (f (f x)))))))))))"
  by (simp add: eval_nat_numeral)

text \<open>
  The loan side of the default run, evaluated step by step: the inputs, the loan
  amount, the monthly rate, the payment, and the balance at the end of each year.
\<close>

lemma binary64_defaults_loan_inputs:
  "purchase_price binary64_defaults = 550000"
  "down_payment_percent binary64_defaults = 3602879701896397 / 2 ^ 54"
  "mortgage_rate binary64_defaults = 1 / 16"
  "mortgage_term binary64_defaults = 15"
  by (simp_all add: binary64_defaults_def binary64_input_def default_assumptions_def fl_eval)

lemma loan_amount64_default: "loan_amount64 binary64_defaults = 440000"
  by (simp add: loan_amount64_def down_payment_dollars64_def binary64_defaults_loan_inputs fl_eval)

lemma monthly_rate64_default: "monthly_rate64 binary64_defaults = 6004799503160661 / 2 ^ 60"
  by (simp add: monthly_rate64_def binary64_defaults_loan_inputs fl_eval)

text \<open>
  The power \<open>(1 + r) ^ 180\<close> has some 9500 bits. It is bracketed instead, along the chain
  of exponents 1, 2, 4, 5, 10, 11, 22, 44, 45, 90, 180, between two numbers with 120
  fractional bits, rounded down and up at every step; the final bracket lies strictly
  between the two midpoints next to the binary64 number claimed, which \<open>fl_eqI\<close> turns
  into the rounded value.
\<close>

lemma pow64_default:
  "pow64 (4527055875429717 / 4503599627370496) 180 = 5736199319298289 / 2 ^ 51"
proof -
  define Q :: real where "Q = 4527055875429717 / 2 ^ 52"
  have Q0: "0 \<le> Q" by (simp add: Q_def)
  have b1: "1336151058262962211359212662268362752 / 2 ^ 120 \<le> Q ^ 1 \<and> Q ^ 1 \<le> 1336151058262962211359212662268362752 / 2 ^ 120"
    by (simp add: Q_def)
  have e2: "Q ^ 2 = Q ^ 1 * Q ^ 1" by (simp add: power2_eq_square) 
  have "(1336151058262962211359212662268362752 / 2 ^ 120) * (1336151058262962211359212662268362752 / 2 ^ 120) \<le> Q ^ 1 * Q ^ 1"
    using b1 Q0 by (intro mult_mono) simp_all
  moreover have "Q ^ 1 * Q ^ 1 \<le> (1336151058262962211359212662268362752 / 2 ^ 120) * (1336151058262962211359212662268362752 / 2 ^ 120)"
    using b1 Q0 by (intro mult_mono) simp_all
  moreover have "1343110178358081707314997277497032704 / 2 ^ 120 \<le> (1336151058262962211359212662268362752 / 2 ^ 120) * (1336151058262962211359212662268362752 / (2::real) ^ 120)" by simp
  moreover have "(1336151058262962211359212662268362752 / 2 ^ 120) * (1336151058262962211359212662268362752 / 2 ^ 120) \<le> 1343110178358081707314997277497032704 / (2::real) ^ 120" by simp
  ultimately have b2: "1343110178358081707314997277497032704 / 2 ^ 120 \<le> Q ^ 2 \<and> Q ^ 2 \<le> 1343110178358081707314997277497032704 / 2 ^ 120"
    unfolding e2 by linarith
  have e4: "Q ^ 4 = Q ^ 2 * Q ^ 2" using power_add [of Q 2 2] by simp
  have "(1343110178358081707314997277497032704 / 2 ^ 120) * (1343110178358081707314997277497032704 / 2 ^ 120) \<le> Q ^ 2 * Q ^ 2"
    using b2 Q0 by (intro mult_mono) simp_all
  moreover have "Q ^ 2 * Q ^ 2 \<le> (1343110178358081707314997277497032704 / 2 ^ 120) * (1343110178358081707314997277497032704 / 2 ^ 120)"
    using b2 Q0 by (intro mult_mono) simp_all
  moreover have "1357137343578021325637296540889970765 / 2 ^ 120 \<le> (1343110178358081707314997277497032704 / 2 ^ 120) * (1343110178358081707314997277497032704 / (2::real) ^ 120)" by simp
  moreover have "(1343110178358081707314997277497032704 / 2 ^ 120) * (1343110178358081707314997277497032704 / 2 ^ 120) \<le> 1357137343578021325637296540889970766 / (2::real) ^ 120" by simp
  ultimately have b4: "1357137343578021325637296540889970765 / 2 ^ 120 \<le> Q ^ 4 \<and> Q ^ 4 \<le> 1357137343578021325637296540889970766 / 2 ^ 120"
    unfolding e4 by linarith
  have e5: "Q ^ 5 = Q ^ 4 * Q" using power_add [of Q 4 1] by simp
  have "(1357137343578021325637296540889970765 / 2 ^ 120) * Q \<le> Q ^ 4 * Q"
    using b4 Q0 by (intro mult_right_mono) simp_all
  moreover have "Q ^ 4 * Q \<le> (1357137343578021325637296540889970766 / 2 ^ 120) * Q"
    using b4 Q0 by (intro mult_right_mono) simp_all
  moreover have "1364205767242490086259982365777699184 / 2 ^ 120 \<le> (1357137343578021325637296540889970765 / 2 ^ 120) * Q" by (simp add: Q_def)
  moreover have "(1357137343578021325637296540889970766 / 2 ^ 120) * Q \<le> 1364205767242490086259982365777699186 / 2 ^ 120" by (simp add: Q_def)
  ultimately have b5: "1364205767242490086259982365777699184 / 2 ^ 120 \<le> Q ^ 5 \<and> Q ^ 5 \<le> 1364205767242490086259982365777699186 / 2 ^ 120"
    unfolding e5 by linarith
  have e10: "Q ^ 10 = Q ^ 5 * Q ^ 5" using power_add [of Q 5 5] by simp
  have "(1364205767242490086259982365777699184 / 2 ^ 120) * (1364205767242490086259982365777699184 / 2 ^ 120) \<le> Q ^ 5 * Q ^ 5"
    using b5 Q0 by (intro mult_mono) simp_all
  moreover have "Q ^ 5 * Q ^ 5 \<le> (1364205767242490086259982365777699186 / 2 ^ 120) * (1364205767242490086259982365777699186 / 2 ^ 120)"
    using b5 Q0 by (intro mult_mono) simp_all
  moreover have "1400103956040067617203570159585074224 / 2 ^ 120 \<le> (1364205767242490086259982365777699184 / 2 ^ 120) * (1364205767242490086259982365777699184 / (2::real) ^ 120)" by simp
  moreover have "(1364205767242490086259982365777699186 / 2 ^ 120) * (1364205767242490086259982365777699186 / 2 ^ 120) \<le> 1400103956040067617203570159585074229 / (2::real) ^ 120" by simp
  ultimately have b10: "1400103956040067617203570159585074224 / 2 ^ 120 \<le> Q ^ 10 \<and> Q ^ 10 \<le> 1400103956040067617203570159585074229 / 2 ^ 120"
    unfolding e10 by linarith
  have e11: "Q ^ 11 = Q ^ 10 * Q" using power_add [of Q 10 1] by simp
  have "(1400103956040067617203570159585074224 / 2 ^ 120) * Q \<le> Q ^ 10 * Q"
    using b10 Q0 by (intro mult_right_mono) simp_all
  moreover have "Q ^ 10 * Q \<le> (1400103956040067617203570159585074229 / 2 ^ 120) * Q"
    using b10 Q0 by (intro mult_right_mono) simp_all
  moreover have "1407396164144442865747995496536174450 / 2 ^ 120 \<le> (1400103956040067617203570159585074224 / 2 ^ 120) * Q" by (simp add: Q_def)
  moreover have "(1400103956040067617203570159585074229 / 2 ^ 120) * Q \<le> 1407396164144442865747995496536174456 / 2 ^ 120" by (simp add: Q_def)
  ultimately have b11: "1407396164144442865747995496536174450 / 2 ^ 120 \<le> Q ^ 11 \<and> Q ^ 11 \<le> 1407396164144442865747995496536174456 / 2 ^ 120"
    unfolding e11 by linarith
  have e22: "Q ^ 22 = Q ^ 11 * Q ^ 11" using power_add [of Q 11 11] by simp
  have "(1407396164144442865747995496536174450 / 2 ^ 120) * (1407396164144442865747995496536174450 / 2 ^ 120) \<le> Q ^ 11 * Q ^ 11"
    using b11 Q0 by (intro mult_mono) simp_all
  moreover have "Q ^ 11 * Q ^ 11 \<le> (1407396164144442865747995496536174456 / 2 ^ 120) * (1407396164144442865747995496536174456 / 2 ^ 120)"
    using b11 Q0 by (intro mult_mono) simp_all
  moreover have "1490161183130092291306826687737496125 / 2 ^ 120 \<le> (1407396164144442865747995496536174450 / 2 ^ 120) * (1407396164144442865747995496536174450 / (2::real) ^ 120)" by simp
  moreover have "(1407396164144442865747995496536174456 / 2 ^ 120) * (1407396164144442865747995496536174456 / 2 ^ 120) \<le> 1490161183130092291306826687737496139 / (2::real) ^ 120" by simp
  ultimately have b22: "1490161183130092291306826687737496125 / 2 ^ 120 \<le> Q ^ 22 \<and> Q ^ 22 \<le> 1490161183130092291306826687737496139 / 2 ^ 120"
    unfolding e22 by linarith
  have e44: "Q ^ 44 = Q ^ 22 * Q ^ 22" using power_add [of Q 22 22] by simp
  have "(1490161183130092291306826687737496125 / 2 ^ 120) * (1490161183130092291306826687737496125 / 2 ^ 120) \<le> Q ^ 22 * Q ^ 22"
    using b22 Q0 by (intro mult_mono) simp_all
  moreover have "Q ^ 22 * Q ^ 22 \<le> (1490161183130092291306826687737496139 / 2 ^ 120) * (1490161183130092291306826687737496139 / 2 ^ 120)"
    using b22 Q0 by (intro mult_mono) simp_all
  moreover have "1670578981746778884784412654660335721 / 2 ^ 120 \<le> (1490161183130092291306826687737496125 / 2 ^ 120) * (1490161183130092291306826687737496125 / (2::real) ^ 120)" by simp
  moreover have "(1490161183130092291306826687737496139 / 2 ^ 120) * (1490161183130092291306826687737496139 / 2 ^ 120) \<le> 1670578981746778884784412654660335754 / (2::real) ^ 120" by simp
  ultimately have b44: "1670578981746778884784412654660335721 / 2 ^ 120 \<le> Q ^ 44 \<and> Q ^ 44 \<le> 1670578981746778884784412654660335754 / 2 ^ 120"
    unfolding e44 by linarith
  have e45: "Q ^ 45 = Q ^ 44 * Q" using power_add [of Q 44 1] by simp
  have "(1670578981746778884784412654660335721 / 2 ^ 120) * Q \<le> Q ^ 44 * Q"
    using b44 Q0 by (intro mult_right_mono) simp_all
  moreover have "Q ^ 44 * Q \<le> (1670578981746778884784412654660335754 / 2 ^ 120) * Q"
    using b44 Q0 by (intro mult_right_mono) simp_all
  moreover have "1679279913943376567828314804561822805 / 2 ^ 120 \<le> (1670578981746778884784412654660335721 / 2 ^ 120) * Q" by (simp add: Q_def)
  moreover have "(1670578981746778884784412654660335754 / 2 ^ 120) * Q \<le> 1679279913943376567828314804561822839 / 2 ^ 120" by (simp add: Q_def)
  ultimately have b45: "1679279913943376567828314804561822805 / 2 ^ 120 \<le> Q ^ 45 \<and> Q ^ 45 \<le> 1679279913943376567828314804561822839 / 2 ^ 120"
    unfolding e45 by linarith
  have e90: "Q ^ 90 = Q ^ 45 * Q ^ 45" using power_add [of Q 45 45] by simp
  have "(1679279913943376567828314804561822805 / 2 ^ 120) * (1679279913943376567828314804561822805 / 2 ^ 120) \<le> Q ^ 45 * Q ^ 45"
    using b45 Q0 by (intro mult_mono) simp_all
  moreover have "Q ^ 45 * Q ^ 45 \<le> (1679279913943376567828314804561822839 / 2 ^ 120) * (1679279913943376567828314804561822839 / 2 ^ 120)"
    using b45 Q0 by (intro mult_mono) simp_all
  moreover have "2121517932451054878329583927853828288 / 2 ^ 120 \<le> (1679279913943376567828314804561822805 / 2 ^ 120) * (1679279913943376567828314804561822805 / (2::real) ^ 120)" by simp
  moreover have "(1679279913943376567828314804561822839 / 2 ^ 120) * (1679279913943376567828314804561822839 / 2 ^ 120) \<le> 2121517932451054878329583927853828375 / (2::real) ^ 120" by simp
  ultimately have b90: "2121517932451054878329583927853828288 / 2 ^ 120 \<le> Q ^ 90 \<and> Q ^ 90 \<le> 2121517932451054878329583927853828375 / 2 ^ 120"
    unfolding e90 by linarith
  have e180: "Q ^ 180 = Q ^ 90 * Q ^ 90" using power_add [of Q 90 90] by simp
  have "(2121517932451054878329583927853828288 / 2 ^ 120) * (2121517932451054878329583927853828288 / 2 ^ 120) \<le> Q ^ 90 * Q ^ 90"
    using b90 Q0 by (intro mult_mono) simp_all
  moreover have "Q ^ 90 * Q ^ 90 \<le> (2121517932451054878329583927853828375 / 2 ^ 120) * (2121517932451054878329583927853828375 / 2 ^ 120)"
    using b90 Q0 by (intro mult_mono) simp_all
  moreover have "3386054425564239477552139205049296190 / 2 ^ 120 \<le> (2121517932451054878329583927853828288 / 2 ^ 120) * (2121517932451054878329583927853828288 / (2::real) ^ 120)" by simp
  moreover have "(2121517932451054878329583927853828375 / 2 ^ 120) * (2121517932451054878329583927853828375 / 2 ^ 120) \<le> 3386054425564239477552139205049296469 / (2::real) ^ 120" by simp
  ultimately have b180: "3386054425564239477552139205049296190 / 2 ^ 120 \<le> Q ^ 180 \<and> Q ^ 180 \<le> 3386054425564239477552139205049296469 / 2 ^ 120"
    unfolding e180 by linarith
  define X where "X = Q ^ 180"
  have lo: "3386054425564239477552139205049296190 / 2 ^ 120 \<le> X" and hi: "X \<le> 3386054425564239477552139205049296469 / 2 ^ 120"
    using b180 by (simp_all add: X_def)
  have X0: "\<bar>X\<bar> = X" using lo by simp
  have "2 powi 1 \<le> \<bar>X\<bar>" unfolding X0 using lo by simp
  moreover have "\<bar>X\<bar> < 2 powi (1 + 1)" unfolding X0 using hi by simp
  moreover have "\<bar>X / 2 powi (1 - 52) - of_int 5736199319298289\<bar> < 1 / 2"
    using lo hi by (simp add: power_int_minus field_simps)
  ultimately have "fl X = of_int 5736199319298289 * 2 powi (1 - 52)" by (rule fl_eqI)
  then show ?thesis by (simp add: pow64_def X_def Q_def power_int_minus)
qed

lemma monthly_pi64_default: "monthly_pi64 binary64_defaults = 8296168422414145 / 2 ^ 41"
proof -
  have q: "fl (1 + 6004799503160661 / 2 ^ 60) = 4527055875429717 / 4503599627370496"
    by (simp add: fl_eval)
  have "pmt64 (6004799503160661 / 2 ^ 60) 180 440000 0 0 = - (8296168422414145 / 2 ^ 41)"
    unfolding pmt64_def Let_def q pow64_default by (simp add: fl_eval)
  then show ?thesis
    by (simp add: monthly_pi64_def monthly_rate64_default loan_amount64_default n_periods_def
        binary64_defaults_loan_inputs)
qed

lemma balance_month64_default:
  "balance_month64 binary64_defaults b =
     (if b > 0
      then fl (b - fl (8296168422414145 / 2 ^ 41 - fl (b * (6004799503160661 / 2 ^ 60))))
      else 0)"
  by (simp only: balance_month64_def monthly_pi64_default monthly_rate64_default)

lemma loan_balance64_year_1:
  "loan_balance64 binary64_defaults 1 = 7244923288816055 / 2 ^ 34"
proof -
  have "loan_balance64 binary64_defaults 1 =
          (balance_month64 binary64_defaults ^^ 12) (loan_balance64 binary64_defaults 0)"
    by (rule loan_balance64_step) simp
  also have "\<dots> = (balance_month64 binary64_defaults ^^ 12) (440000)"
    by (simp only: loan_balance64.simps loan_amount64_default)
  also have "\<dots> = 7244923288816055 / 2 ^ 34"
    by (simp add: funpow_12 balance_month64_default fl_eval)
  finally show ?thesis .
qed

lemma loan_balance64_year_2:
  "loan_balance64 binary64_defaults 2 = 6910492990622143 / 2 ^ 34"
proof -
  have "loan_balance64 binary64_defaults 2 =
          (balance_month64 binary64_defaults ^^ 12) (loan_balance64 binary64_defaults 1)"
    by (rule loan_balance64_step) simp
  also have "\<dots> = (balance_month64 binary64_defaults ^^ 12) (7244923288816055 / 2 ^ 34)"
    by (simp only: loan_balance64_year_1)
  also have "\<dots> = 6910492990622143 / 2 ^ 34"
    by (simp add: funpow_12 balance_month64_default fl_eval)
  finally show ?thesis .
qed

lemma loan_balance64_year_3:
  "loan_balance64 binary64_defaults 3 = 6554551528789055 / 2 ^ 34"
proof -
  have "loan_balance64 binary64_defaults 3 =
          (balance_month64 binary64_defaults ^^ 12) (loan_balance64 binary64_defaults 2)"
    by (rule loan_balance64_step) simp
  also have "\<dots> = (balance_month64 binary64_defaults ^^ 12) (6910492990622143 / 2 ^ 34)"
    by (simp only: loan_balance64_year_2)
  also have "\<dots> = 6554551528789055 / 2 ^ 34"
    by (simp add: funpow_12 balance_month64_default fl_eval)
  finally show ?thesis .
qed

lemma loan_balance64_year_4:
  "loan_balance64 binary64_defaults 4 = 771964408279653 / 2 ^ 31"
proof -
  have "loan_balance64 binary64_defaults 4 =
          (balance_month64 binary64_defaults ^^ 12) (loan_balance64 binary64_defaults 3)"
    by (rule loan_balance64_step) simp
  also have "\<dots> = (balance_month64 binary64_defaults ^^ 12) (6554551528789055 / 2 ^ 34)"
    by (simp only: loan_balance64_year_3)
  also have "\<dots> = 771964408279653 / 2 ^ 31"
    by (simp add: funpow_12 balance_month64_default fl_eval)
  finally show ?thesis .
qed

lemma loan_balance64_year_5:
  "loan_balance64 binary64_defaults 5 = 360781972989961 / 2 ^ 30"
proof -
  have "loan_balance64 binary64_defaults 5 =
          (balance_month64 binary64_defaults ^^ 12) (loan_balance64 binary64_defaults 4)"
    by (rule loan_balance64_step) simp
  also have "\<dots> = (balance_month64 binary64_defaults ^^ 12) (771964408279653 / 2 ^ 31)"
    by (simp only: loan_balance64_year_4)
  also have "\<dots> = 360781972989961 / 2 ^ 30"
    by (simp add: funpow_12 balance_month64_default fl_eval)
  finally show ?thesis .
qed

lemma loan_balance64_year_6:
  "loan_balance64 binary64_defaults 6 = 5343373075904587 / 2 ^ 34"
proof -
  have "loan_balance64 binary64_defaults 6 =
          (balance_month64 binary64_defaults ^^ 12) (loan_balance64 binary64_defaults 5)"
    by (rule loan_balance64_step) simp
  also have "\<dots> = (balance_month64 binary64_defaults ^^ 12) (360781972989961 / 2 ^ 30)"
    by (simp only: loan_balance64_year_5)
  also have "\<dots> = 5343373075904587 / 2 ^ 34"
    by (simp add: funpow_12 balance_month64_default fl_eval)
  finally show ?thesis .
qed

lemma loan_balance64_year_7:
  "loan_balance64 binary64_defaults 7 = 4886631617451119 / 2 ^ 34"
proof -
  have "loan_balance64 binary64_defaults 7 =
          (balance_month64 binary64_defaults ^^ 12) (loan_balance64 binary64_defaults 6)"
    by (rule loan_balance64_step) simp
  also have "\<dots> = (balance_month64 binary64_defaults ^^ 12) (5343373075904587 / 2 ^ 34)"
    by (simp only: loan_balance64_year_6)
  also have "\<dots> = 4886631617451119 / 2 ^ 34"
    by (simp add: funpow_12 balance_month64_default fl_eval)
  finally show ?thesis .
qed

lemma loan_balance64_year_8:
  "loan_balance64 binary64_defaults 8 = 8801023439167949 / 2 ^ 35"
proof -
  have "loan_balance64 binary64_defaults 8 =
          (balance_month64 binary64_defaults ^^ 12) (loan_balance64 binary64_defaults 7)"
    by (rule loan_balance64_step) simp
  also have "\<dots> = (balance_month64 binary64_defaults ^^ 12) (4886631617451119 / 2 ^ 34)"
    by (simp only: loan_balance64_year_7)
  also have "\<dots> = 8801023439167949 / 2 ^ 35"
    by (simp add: funpow_12 balance_month64_default fl_eval)
  finally show ?thesis .
qed

lemma loan_balance64_year_9:
  "loan_balance64 binary64_defaults 9 = 3883123707769761 / 2 ^ 34"
proof -
  have "loan_balance64 binary64_defaults 9 =
          (balance_month64 binary64_defaults ^^ 12) (loan_balance64 binary64_defaults 8)"
    by (rule loan_balance64_step) simp
  also have "\<dots> = (balance_month64 binary64_defaults ^^ 12) (8801023439167949 / 2 ^ 35)"
    by (simp only: loan_balance64_year_8)
  also have "\<dots> = 3883123707769761 / 2 ^ 34"
    by (simp add: funpow_12 balance_month64_default fl_eval)
  finally show ?thesis .
qed

lemma loan_balance64_year_10:
  "loan_balance64 binary64_defaults 10 = 1666228180090043 / 2 ^ 33"
proof -
  have "loan_balance64 binary64_defaults 10 =
          (balance_month64 binary64_defaults ^^ 12) (loan_balance64 binary64_defaults 9)"
    by (rule loan_balance64_step) simp
  also have "\<dots> = (balance_month64 binary64_defaults ^^ 12) (3883123707769761 / 2 ^ 34)"
    by (simp only: loan_balance64_year_9)
  also have "\<dots> = 1666228180090043 / 2 ^ 33"
    by (simp add: funpow_12 balance_month64_default fl_eval)
  finally show ?thesis .
qed

lemma loan_balance64_year_11:
  "loan_balance64 binary64_defaults 11 = 5492738179097955 / 2 ^ 35"
proof -
  have "loan_balance64 binary64_defaults 11 =
          (balance_month64 binary64_defaults ^^ 12) (loan_balance64 binary64_defaults 10)"
    by (rule loan_balance64_step) simp
  also have "\<dots> = (balance_month64 binary64_defaults ^^ 12) (1666228180090043 / 2 ^ 33)"
    by (simp only: loan_balance64_year_10)
  also have "\<dots> = 5492738179097955 / 2 ^ 35"
    by (simp add: funpow_12 balance_month64_default fl_eval)
  finally show ?thesis .
qed

lemma loan_balance64_year_12:
  "loan_balance64 binary64_defaults 12 = 4245167244306387 / 2 ^ 35"
proof -
  have "loan_balance64 binary64_defaults 12 =
          (balance_month64 binary64_defaults ^^ 12) (loan_balance64 binary64_defaults 11)"
    by (rule loan_balance64_step) simp
  also have "\<dots> = (balance_month64 binary64_defaults ^^ 12) (5492738179097955 / 2 ^ 35)"
    by (simp only: loan_balance64_year_11)
  also have "\<dots> = 4245167244306387 / 2 ^ 35"
    by (simp add: funpow_12 balance_month64_default fl_eval)
  finally show ?thesis .
qed

lemma loan_balance64_year_13:
  "loan_balance64 binary64_defaults 13 = 5834700566277771 / 2 ^ 36"
proof -
  have "loan_balance64 binary64_defaults 13 =
          (balance_month64 binary64_defaults ^^ 12) (loan_balance64 binary64_defaults 12)"
    by (rule loan_balance64_step) simp
  also have "\<dots> = (balance_month64 binary64_defaults ^^ 12) (4245167244306387 / 2 ^ 35)"
    by (simp only: loan_balance64_year_12)
  also have "\<dots> = 5834700566277771 / 2 ^ 36"
    by (simp add: funpow_12 balance_month64_default fl_eval)
  finally show ?thesis .
qed

lemma loan_balance64_year_14:
  "loan_balance64 binary64_defaults 14 = 6016502902256003 / 2 ^ 37"
proof -
  have "loan_balance64 binary64_defaults 14 =
          (balance_month64 binary64_defaults ^^ 12) (loan_balance64 binary64_defaults 13)"
    by (rule loan_balance64_step) simp
  also have "\<dots> = (balance_month64 binary64_defaults ^^ 12) (5834700566277771 / 2 ^ 36)"
    by (simp only: loan_balance64_year_13)
  also have "\<dots> = 6016502902256003 / 2 ^ 37"
    by (simp add: funpow_12 balance_month64_default fl_eval)
  finally show ?thesis .
qed

lemma loan_balance64_year_15:
  "loan_balance64 binary64_defaults 15 = - (5691 / 2 ^ 39)"
proof -
  have "loan_balance64 binary64_defaults 15 =
          (balance_month64 binary64_defaults ^^ 12) (loan_balance64 binary64_defaults 14)"
    by (rule loan_balance64_step) simp
  also have "\<dots> = (balance_month64 binary64_defaults ^^ 12) (6016502902256003 / 2 ^ 37)"
    by (simp only: loan_balance64_year_14)
  also have "\<dots> = - (5691 / 2 ^ 39)"
    by (simp add: funpow_12 balance_month64_default fl_eval)
  finally show ?thesis .
qed

section \<open>The claims\<close>

text \<open>
  C1. For every well-formed input the monthly payment is the annuity value
  \<open>r * L / (1 - (1 + r) ^ (- n))\<close> with \<open>r = mortgage_rate / 12\<close>, \<open>n = mortgage_term * 12\<close> and
  \<open>L = purchase_price * (1 - down_payment_percent)\<close>; when the mortgage rate is 0 it is
  \<open>L / n\<close>.
\<close>

theorem monthly_pi_annuity:
  assumes "wellformed a"
  shows "monthly_pi a =
           (let r = mortgage_rate a / 12;
                n = mortgage_term a * 12;
                L = purchase_price a * (1 - down_payment_percent a)
            in if mortgage_rate a = 0 then L / real n
               else r * L / (1 - (1 + r) powi (- int n)))"
proof -
  have L: "loan_amount a = purchase_price a * (1 - down_payment_percent a)"
    by (simp add: loan_amount_def down_payment_dollars_def algebra_simps)
  show ?thesis
  proof (cases "mortgage_rate a = 0")
    case True
    then have "monthly_rate a = 0" by (simp add: monthly_rate_def)
    then have "monthly_pi a = loan_amount a / real (n_periods a)" by (rule monthly_pi_zero_rate)
    with True show ?thesis by (simp add: L n_periods_def Let_def)
  next
    case False
    define q where "q = 1 + monthly_rate a"
    define n where "n = n_periods a"
    from False assms have r: "0 < monthly_rate a" by (simp add: monthly_rate_def wellformed_def)
    have n: "0 < n" using wellformed_periods [OF assms] by (auto simp: n_def)
    have q: "1 < q ^ n" unfolding q_def using r n by (rule growth_gt_1)
    then have q0: "q ^ n \<noteq> 0" "q ^ n - 1 \<noteq> 0" by linarith+
    have "monthly_pi a = loan_amount a * monthly_rate a * q ^ n / (q ^ n - 1)"
      using r by (simp add: monthly_pi_pos_rate q_def n_def)
    also have "\<dots> = monthly_rate a * loan_amount a / (1 - inverse (q ^ n))"
      using q0 by (simp add: field_simps)
    also have "inverse (q ^ n) = q powi (- int n)"
      by (simp add: power_int_minus)
    finally show ?thesis
      using False by (simp add: L q_def n_def n_periods_def monthly_rate_def Let_def)
  qed
qed

theorem monthly_pi_annuity_witness:
  "wellformed default_assumptions \<and>
   monthly_pi default_assumptions =
     (625 / 120000) * 440000 / (1 - (1 + 625 / 120000) powi (- 180)) \<and>
   wellformed zero_rate_assumptions \<and>
   monthly_pi zero_rate_assumptions = 440000 / 180"
  using monthly_pi_annuity [of default_assumptions] monthly_pi_annuity [of zero_rate_assumptions]
  by (simp add: wellformed_def default_assumptions_def zero_rate_assumptions_def Let_def)



text \<open>
  C3 says that every monthly update is \<open>balance := max 0 (balance - principal)\<close> and that
  the balance at the end of a year is never negative. The script does not do this. On
  its default inputs, in the binary64 arithmetic it computes with, the balance is
  positive at the end of year 14 and is \<open>- 5691 / 2 ^ 39\<close> (about \<open>-1.035e-08\<close>) at the end of
  year 15: line 122 tests the balance before line 125 subtracts the principal, nothing
  clamps the difference, and the last payment overshoots. That negative balance is
  what line 134 subtracts in the owner equity of year 15.
\<close>

theorem loan_balance_negative_binary64:
  "wellformed binary64_defaults
 \<and> loan_balance64 binary64_defaults 0 = 440000
 \<and> monthly_pi64 binary64_defaults = 8296168422414145 / 2 ^ 41
 \<and> loan_balance64 binary64_defaults 14 = 6016502902256003 / 2 ^ 37
 \<and> 0 < loan_balance64 binary64_defaults 14
 \<and> loan_balance64 binary64_defaults 15 = - (5691 / 2 ^ 39)
 \<and> loan_balance64 binary64_defaults 15 < 0
 \<and> loan_balance64 binary64_defaults 15 \<noteq> max 0 (loan_balance64 binary64_defaults 15)"
proof -
  have w: "wellformed binary64_defaults"
    by (simp add: wellformed_def binary64_defaults_def binary64_input_def
        default_assumptions_def fl_eval)
  have z: "loan_balance64 binary64_defaults 0 = 440000"
    by (simp add: loan_amount64_default)
  from w z show ?thesis
    by (simp add: monthly_pi64_default loan_balance64_year_14 loan_balance64_year_15)
qed

text \<open>
  C4. In year 1 the cash flows use the initial, unescalated monthly rent, HOA,
  maintenance (initial market value times maintenance rate), insurance (initial market
  value times insurance rate) and tax bill; only the home value is escalated, once, by
  \<open>1 + appreciation_rate\<close>, before the owner equity of year 1 is computed.
\<close>

theorem year_one_freeze:
  "curr_rent_monthly (run_years a 1) = monthly_rent a
 \<and> curr_hoa (run_years a 1) = hoa_monthly a
 \<and> curr_maint (run_years a 1) = initial_market_value a * maintenance_rate a
 \<and> curr_insurance (run_years a 1) = initial_market_value a * insurance_rate a
 \<and> curr_tax_bill (run_years a 1) = initial_tax_bill a
 \<and> owner_annual_spend (run_years a 1) =
       (monthly_pi a * 12) + (hoa_monthly a * 12) + initial_tax_bill a
         + initial_market_value a * maintenance_rate a
         + initial_market_value a * insurance_rate a
 \<and> renter_annual_spend (run_years a 1) = monthly_rent a * 12
 \<and> curr_home_value (run_years a 1) = initial_market_value a * (1 + appreciation_rate a)
 \<and> owner_equity (run_years a 1) =
       initial_market_value a * (1 + appreciation_rate a)
         - (initial_market_value a * (1 + appreciation_rate a) * selling_costs_pct a)
         - curr_loan_balance (run_years a 1)"
proof -
  have s: "run_years a 1 = year_body a 1 (init_state a)"
    using run_years_Suc [of a 0] by (simp add: run_years_0)
  have rent: "curr_rent_monthly (run_years a 1) = monthly_rent a"
    and hoa: "curr_hoa (run_years a 1) = hoa_monthly a"
    and maint: "curr_maint (run_years a 1) = initial_market_value a * maintenance_rate a"
    and ins: "curr_insurance (run_years a 1) = initial_market_value a * insurance_rate a"
    and tax: "curr_tax_bill (run_years a 1) = initial_tax_bill a"
    and home: "curr_home_value (run_years a 1) = initial_market_value a * (1 + appreciation_rate a)"
    unfolding s
    by (simp_all add: year_body_rent year_body_hoa year_body_maint year_body_insurance
        year_body_tax_bill year_body_home_value init_state_def)
  have "owner_annual_spend (run_years a 1) =
       (monthly_pi a * 12) + (curr_hoa (run_years a 1) * 12) + curr_tax_bill (run_years a 1)
         + curr_maint (run_years a 1) + curr_insurance (run_years a 1)"
    unfolding s by (rule year_body_owner_spend)
  then have spend: "owner_annual_spend (run_years a 1) =
       (monthly_pi a * 12) + (hoa_monthly a * 12) + initial_tax_bill a
         + initial_market_value a * maintenance_rate a
         + initial_market_value a * insurance_rate a"
    by (simp only: hoa tax maint ins)
  have "renter_annual_spend (run_years a 1) = curr_rent_monthly (run_years a 1) * 12"
    unfolding s by (rule year_body_renter_spend)
  then have rspend: "renter_annual_spend (run_years a 1) = monthly_rent a * 12"
    by (simp only: rent)
  have "owner_equity (run_years a 1) =
     curr_home_value (run_years a 1) - (curr_home_value (run_years a 1) * selling_costs_pct a)
       - curr_loan_balance (run_years a 1)"
    unfolding s by (rule year_body_owner_equity)
  then have eq: "owner_equity (run_years a 1) =
       initial_market_value a * (1 + appreciation_rate a)
         - (initial_market_value a * (1 + appreciation_rate a) * selling_costs_pct a)
         - curr_loan_balance (run_years a 1)"
    by (simp only: home)
  from rent hoa maint ins tax spend rspend home eq show ?thesis by blast
qed

text \<open>
  C5. For consecutive simulated years \<open>y\<close> and \<open>y + 1\<close> with \<open>1 \<le> y\<close>, the tax bill of year
  \<open>y + 1\<close> is the tax bill of year \<open>y\<close> times \<open>1 + min inflation_rate tax_cap_rate\<close>; when
  inflation exceeds the cap, the growth rate is the cap.
\<close>

theorem tax_bill_growth:
  assumes "1 \<le> y" "y < 15"
  shows "curr_tax_bill (run_years a (Suc y)) =
           curr_tax_bill (run_years a y) * (1 + min (inflation_rate a) (tax_cap_rate a))
       \<and> (tax_cap_rate a < inflation_rate a \<longrightarrow>
            curr_tax_bill (run_years a (Suc y)) = curr_tax_bill (run_years a y) * (1 + tax_cap_rate a))"
  using assms by (auto simp: run_years_Suc year_body_tax_bill)

theorem tax_bill_growth_witness:
  "(1::nat) \<le> 1 \<and> (1::nat) < 15 \<and>
   tax_cap_rate high_inflation_assumptions < inflation_rate high_inflation_assumptions \<and>
   curr_tax_bill (run_years high_inflation_assumptions (Suc 1)) =
     curr_tax_bill (run_years high_inflation_assumptions 1) * (1 + 3 / 100)"
  using tax_bill_growth [of 1 high_inflation_assumptions]
  by (simp add: high_inflation_assumptions_def default_assumptions_def)

text \<open>
  C6. Whatever the state at the start of a year, and so also when the loan balance is
  already zero, the owner's annual spend of that year is twelve fixed payments plus
  twelve HOA fees, the tax bill, maintenance and insurance; this holds in every
  simulated year 1..15.
\<close>

theorem owner_spend_includes_payment:
  "owner_annual_spend (year_body a y s) =
     12 * monthly_pi a + 12 * curr_hoa (year_body a y s) + curr_tax_bill (year_body a y s)
       + curr_maint (year_body a y s) + curr_insurance (year_body a y s)
 \<and> (1 \<le> y \<and> y \<le> 15 \<longrightarrow>
      owner_annual_spend (run_years a y) =
        12 * monthly_pi a
          + 12 * (hoa_monthly a * (1 + inflation_rate a) ^ (y - 1))
          + initial_tax_bill a * (1 + min (inflation_rate a) (tax_cap_rate a)) ^ (y - 1)
          + initial_market_value a * maintenance_rate a * (1 + inflation_rate a) ^ (y - 1)
          + initial_market_value a * insurance_rate a * (1 + inflation_rate a) ^ (y - 1))"
proof -
  have A: "owner_annual_spend (year_body a z t) =
     12 * monthly_pi a + 12 * curr_hoa (year_body a z t) + curr_tax_bill (year_body a z t)
       + curr_maint (year_body a z t) + curr_insurance (year_body a z t)" for z t
    using year_body_owner_spend [of a z t] by simp
  show ?thesis
  proof (cases y)
    case 0
    with A show ?thesis by simp
  next
    case (Suc z)
    have "owner_annual_spend (run_years a (Suc z)) =
        12 * monthly_pi a + 12 * curr_hoa (run_years a (Suc z)) + curr_tax_bill (run_years a (Suc z))
          + curr_maint (run_years a (Suc z)) + curr_insurance (run_years a (Suc z))"
      unfolding run_years_Suc by (rule A)
    then have "owner_annual_spend (run_years a (Suc z)) =
        12 * monthly_pi a
          + 12 * (hoa_monthly a * (1 + inflation_rate a) ^ z)
          + initial_tax_bill a * (1 + min (inflation_rate a) (tax_cap_rate a)) ^ z
          + initial_market_value a * maintenance_rate a * (1 + inflation_rate a) ^ z
          + initial_market_value a * insurance_rate a * (1 + inflation_rate a) ^ z"
      by (simp only: run_years_hoa run_years_tax_bill run_years_maint run_years_insurance)
    with A [of y s] Suc show ?thesis by simp
  qed
qed

theorem owner_spend_includes_payment_witness:
  "(1::nat) \<le> 15 \<and> (15::nat) \<le> 15 \<and>
   owner_annual_spend (run_years default_assumptions 15) =
     12 * monthly_pi default_assumptions
       + 12 * (700 * (1 + 3 / 100) ^ 14)
       + initial_tax_bill default_assumptions * (1 + 3 / 100) ^ 14
       + 590000 * (1 / 100) * (1 + 3 / 100) ^ 14
       + 590000 * (1 / 100) * (1 + 3 / 100) ^ 14"
  using owner_spend_includes_payment [of default_assumptions 15]
  by (simp add: default_assumptions_def initial_market_value_def)




text \<open>
  C8. The table the script produces is a function of the Assumptions alone: two runs on
  identical inputs produce identical results whatever the script's variables held
  before each run, because lines 67--83 and the first iteration overwrite all of them
  before anything reads them; the table has one row per year 1..15, in chronological
  order, holding that year's owner equity, renter equity and benefit.
\<close>

theorem simulate_deterministic:
  assumes "a = b"
  shows "script_from s0 a = script_from s1 b
       \<and> df_res (script_from s0 a) = df_res (script_from s1 b)
       \<and> df_res (script_from s0 a) =
           map (\<lambda>y. (y, owner_equity (run_years a y), renter_equity (run_years a y),
                      benefit (run_years a y))) [1..<16]"
proof -
  have "df_res (run_years a k) =
           map (\<lambda>y. (y, owner_equity (run_years a y), renter_equity (run_years a y),
                      benefit (run_years a y))) [1..<Suc k]" for k
    unfolding df_res_def run_years_years run_years_owner_net_outcome
      run_years_renter_net_outcome run_years_gap_data
    by (rule zip_columns)
  from this [of 15] assms show ?thesis
    by (simp add: script_from_simulate simulate_def del: upt_Suc)
qed

theorem simulate_deterministic_witness:
  "default_assumptions = default_assumptions
 \<and> years (simulate boom_assumptions) \<noteq> years (init_state default_assumptions)
 \<and> script_from (simulate boom_assumptions) default_assumptions
      = script_from (init_state default_assumptions) default_assumptions
 \<and> length (df_res (script_from (simulate boom_assumptions) default_assumptions)) = 15
 \<and> map fst (df_res (script_from (simulate boom_assumptions) default_assumptions))
      = [1, 2, 3, 4, 5, 6, 7, 8, 9, 10, 11, 12, 13, 14, 15]"
proof -
  have u: "[1..<16] = [1::nat, 2, 3, 4, 5, 6, 7, 8, 9, 10, 11, 12, 13, 14, 15]"
    by (simp add: upt_rec)
  have d: "years (simulate boom_assumptions) \<noteq> years (init_state default_assumptions)"
    by (simp add: simulate_def run_years_years init_state_def del: upt_Suc)
  note t = simulate_deterministic [OF refl, of "simulate boom_assumptions" default_assumptions
      "init_state default_assumptions"]
  from t have "script_from (simulate boom_assumptions) default_assumptions
          = script_from (init_state default_assumptions) default_assumptions"
    by blast
  moreover from t have "df_res (script_from (simulate boom_assumptions) default_assumptions) =
           map (\<lambda>y. (y, owner_equity (run_years default_assumptions y),
                      renter_equity (run_years default_assumptions y),
                      benefit (run_years default_assumptions y))) [1..<16]"
    by blast
  ultimately show ?thesis using d unfolding u by simp
qed

text \<open>
  C9. When two inputs differ only in the appreciation rate and the selling-costs
  fraction, the two runs emit the same renter equity in every year: the renter's side
  never reads the home value or the selling costs.
\<close>

theorem renter_equity_noninterference:
  assumes "differ_only_in_sale_inputs a b"
  shows "renter_net_outcome (simulate a) = renter_net_outcome (simulate b)
       \<and> map (\<lambda>(year, owner, renter, gap). renter) (df_res (simulate a)) =
           map (\<lambda>(year, owner, renter, gap). renter) (df_res (simulate b))
       \<and> renter_equity (run_years a y) = renter_equity (run_years b y)"
proof -
  have v: "renter_view (run_years a k) = renter_view (run_years b k)" for k
    by (rule renter_view_run_years [OF assms])
  have A: "renter_net_outcome (simulate a) = renter_net_outcome (simulate b)"
    using v [of 15] by (simp add: renter_view_def simulate_def)
  have B: "renter_equity (run_years a k) = renter_equity (run_years b k)" for k
    using v [of k] by (simp add: renter_view_def)
  have "map (\<lambda>(year, owner, renter, gap). renter) (df_res (run_years c 15)) =
          map (\<lambda>y. renter_equity (run_years c y)) [1..<Suc 15]" for c
    unfolding df_res_def run_years_years run_years_owner_net_outcome
      run_years_renter_net_outcome run_years_gap_data zip_columns
    by (simp add: comp_def del: upt_Suc)
  then have C: "map (\<lambda>(year, owner, renter, gap). renter) (df_res (simulate a)) =
           map (\<lambda>(year, owner, renter, gap). renter) (df_res (simulate b))"
    by (simp add: simulate_def B del: upt_Suc)
  from A B C show ?thesis by simp
qed

theorem renter_equity_noninterference_witness:
  "differ_only_in_sale_inputs default_assumptions boom_assumptions
 \<and> wellformed default_assumptions \<and> wellformed boom_assumptions
 \<and> appreciation_rate default_assumptions \<noteq> appreciation_rate boom_assumptions
 \<and> selling_costs_pct default_assumptions \<noteq> selling_costs_pct boom_assumptions
 \<and> renter_net_outcome (simulate default_assumptions) = renter_net_outcome (simulate boom_assumptions)
 \<and> renter_equity (run_years default_assumptions 15) = renter_equity (run_years boom_assumptions 15)"
  using renter_equity_noninterference [of default_assumptions boom_assumptions 15]
  by (simp add: differ_only_in_sale_inputs_def wellformed_def boom_assumptions_def
      default_assumptions_def)

text \<open>
  C10. On well-formed input with the 30-year term and a positive loan amount, the loan
  balance at the end of every year 1..15 is strictly positive, and it is the debt
  subtracted in the owner equity that the run emits for that year.
\<close>

theorem thirty_year_loan_outstanding:
  assumes "wellformed a" "mortgage_term a = 30" "0 < loan_amount a" "1 \<le> y" "y \<le> 15"
  shows "0 < curr_loan_balance (run_years a y)
       \<and> owner_equity (run_years a y) =
           curr_home_value (run_years a y) - (curr_home_value (run_years a y) * selling_costs_pct a)
             - curr_loan_balance (run_years a y)
       \<and> owner_net_outcome (simulate a) ! (y - 1) = owner_equity (run_years a y)"
proof -
  have n: "n_periods a = 360" using assms(2) by (simp add: n_periods_def)
  have "curr_loan_balance (run_years a y) = schedule_balance a (12 * y)"
    using assms by (simp add: run_years_balance month_balance_schedule)
  moreover have "0 < schedule_balance a (12 * y)"
    using assms wellformed_rate [OF assms(1)] n by (intro schedule_balance_pos) simp_all
  ultimately have A: "0 < curr_loan_balance (run_years a y)" by simp
  obtain z where z: "y = Suc z" using assms(4) by (cases y) simp_all
  have B: "owner_equity (run_years a y) =
           curr_home_value (run_years a y) - (curr_home_value (run_years a y) * selling_costs_pct a)
             - curr_loan_balance (run_years a y)"
    unfolding z run_years_Suc by (rule year_body_owner_equity)
  have "z < length [1..<Suc 15]" using assms(5) z by simp
  then have "map (\<lambda>y. owner_equity (run_years a y)) [1..<Suc 15] ! z
               = owner_equity (run_years a ([1..<Suc 15] ! z))"
    by (rule nth_map)
  also have "[1..<Suc 15] ! z = y" using assms(5) z by (simp add: nth_upt del: upt_Suc)
  finally have C: "owner_net_outcome (simulate a) ! (y - 1) = owner_equity (run_years a y)"
    using z by (simp add: simulate_def run_years_owner_net_outcome del: upt_Suc)
  from A B C show ?thesis by simp
qed

theorem thirty_year_loan_outstanding_witness:
  "wellformed thirty_year_assumptions \<and> mortgage_term thirty_year_assumptions = 30 \<and>
   0 < loan_amount thirty_year_assumptions \<and> (1::nat) \<le> 15 \<and> (15::nat) \<le> 15 \<and>
   0 < curr_loan_balance (run_years thirty_year_assumptions 15) \<and>
   owner_net_outcome (simulate thirty_year_assumptions) ! 14
     = owner_equity (run_years thirty_year_assumptions 15)"
  using thirty_year_loan_outstanding [of thirty_year_assumptions 15]
  by (simp add: wellformed_def thirty_year_assumptions_def default_assumptions_def
      loan_amount_def down_payment_dollars_def)

end
